theory Spec2Isabelle
  imports Main "HOL-Library.Word"
begin

unbundle bit_operations_syntax

section \<open>Device constants and the record of device calls\<close>

text \<open>
  The framebuffer layer of \<^verbatim>\<open>gpu_framebuffer.c\<close> drives an OpenGL device. The device is
  not part of the program: every call the code issues is appended to a log, and every
  answer of the device the code branches on (a generated name, an error code, a
  completeness status, an extension flag) is a parameter of the function that asks.
\<close>

type_synonym GLuint = "32 word"
type_synonym GLenum = "32 word"

definition GL_NONE :: GLenum where "GL_NONE = 0"
definition GL_NO_ERROR :: GLenum where "GL_NO_ERROR = 0"
definition GL_INVALID_OPERATION :: GLenum where "GL_INVALID_OPERATION = 0x0502"
definition GL_NEAREST :: GLenum where "GL_NEAREST = 0x2600"
definition GL_DEPTH_BUFFER_BIT :: GLenum where "GL_DEPTH_BUFFER_BIT = 0x00000100"
definition GL_COLOR_BUFFER_BIT :: GLenum where "GL_COLOR_BUFFER_BIT = 0x00004000"
definition GL_DEPTH_COMPONENT :: GLenum where "GL_DEPTH_COMPONENT = 0x1902"
definition GL_RGBA8 :: GLenum where "GL_RGBA8 = 0x8058"
definition GL_RGBA32F :: GLenum where "GL_RGBA32F = 0x8814"
definition GL_RGBA16F :: GLenum where "GL_RGBA16F = 0x881A"
definition GL_DEPTH_STENCIL_ATTACHMENT :: GLenum where "GL_DEPTH_STENCIL_ATTACHMENT = 0x821A"
definition GL_READ_FRAMEBUFFER :: GLenum where "GL_READ_FRAMEBUFFER = 0x8CA8"
definition GL_DRAW_FRAMEBUFFER :: GLenum where "GL_DRAW_FRAMEBUFFER = 0x8CA9"
definition GL_FRAMEBUFFER_COMPLETE :: GLenum where "GL_FRAMEBUFFER_COMPLETE = 0x8CD5"
definition GL_COLOR_ATTACHMENT0 :: GLenum where "GL_COLOR_ATTACHMENT0 = 0x8CE0"
definition GL_DEPTH_ATTACHMENT :: GLenum where "GL_DEPTH_ATTACHMENT = 0x8D00"
definition GL_FRAMEBUFFER :: GLenum where "GL_FRAMEBUFFER = 0x8D40"
definition GL_RENDERBUFFER :: GLenum where "GL_RENDERBUFFER = 0x8D41"

text \<open>The device calls of the modelled functions, with the arguments the code passes.\<close>

datatype gl_call =
    BindFramebuffer GLenum GLuint
  | DrawBuffer GLenum
  | DrawBuffers "GLenum list"
  | ReadBuffer GLenum
  | Viewport int int int int
  | FramebufferTexture GLenum GLenum GLuint int
  | FramebufferRenderbuffer GLenum GLenum GLenum GLuint
  | BlitFramebuffer int int int int int int int int GLenum GLenum
  | DeleteFramebuffers GLuint
  | BindRenderbuffer GLenum GLuint
  | RenderbufferStorage GLenum GLenum int int
  | RenderbufferStorageMultisample GLenum int GLenum int int
  | DeleteRenderbuffers GLuint

section \<open>Data model\<close>

text \<open>
  What ends a C execution abnormally is a value of the model: a dereferenced NULL
  pointer, a pointer to an object that was released, an array index outside
  \<^verbatim>\<open>0 .. GPU_FB_MAX_SLOTS - 1\<close>, a read of a local variable that was never assigned,
  a float-to-int conversion out of range, and a violated \<^verbatim>\<open>BLI_assert\<close>.

  \<^verbatim>\<open>BLI_assert\<close> is a macro of \<^verbatim>\<open>BLI_utildefines.h\<close>, which is not among the sources.
  Modelled from the spec: a call that violates the asserted requirement fails (the spec's
  \<^verbatim>\<open>InvalidArgumentError\<close> for the blit), so a violated assertion ends the operation
  with \<open>AssertFailed\<close>.
\<close>

datatype error =
  NullDeref | Dangling | OutOfBounds | Uninitialised | AssertFailed | ConversionRange

definition bindE :: "error + 'a \<Rightarrow> ('a \<Rightarrow> error + 'b) \<Rightarrow> error + 'b" where
  "bindE m f = (case m of Inl e \<Rightarrow> Inl e | Inr x \<Rightarrow> f x)"

definition GPU_FB_MAX_SLOTS :: int where
  "GPU_FB_MAX_SLOTS = 4"

text \<open>A C array \<^verbatim>\<open>T a[GPU_FB_MAX_SLOTS]\<close>, indexed by a C \<^verbatim>\<open>int\<close>.\<close>

datatype 'a slots = Slots 'a 'a 'a 'a

fun slot_get :: "'a slots \<Rightarrow> int \<Rightarrow> error + 'a" where
  "slot_get (Slots a b c d) i =
     (if i = 0 then Inr a else if i = 1 then Inr b else if i = 2 then Inr c
      else if i = 3 then Inr d else Inl OutOfBounds)"

fun slot_set :: "'a slots \<Rightarrow> int \<Rightarrow> 'a \<Rightarrow> error + 'a slots" where
  "slot_set (Slots a b c d) i v =
     (if i = 0 then Inr (Slots v b c d) else if i = 1 then Inr (Slots a v c d)
      else if i = 2 then Inr (Slots a b v d) else if i = 3 then Inr (Slots a b c v)
      else Inl OutOfBounds)"

text \<open>
  Pointers are addresses (\<open>nat\<close>); a pointer that may be NULL is a \<open>nat option\<close>.
  \<^verbatim>\<open>struct GPUFrameBuffer\<close>:
\<close>

record GPUFrameBuffer =
  object :: GLuint
  colortex :: "nat option slots"
  depthtex :: "nat option"
  colorrb :: "nat option slots"
  depthrb :: "nat option"

text \<open>
  \<^verbatim>\<open>struct GPUTexture\<close> is declared in \<^verbatim>\<open>gpu_texture.c\<close>, which is not among the sources.
  Modelled from the spec: a RenderSurface has a width, a height, a device handle, the
  depth and stencil flags and the back-reference (owning framebuffer, slot index). The
  fields are those the accessors called by the framebuffer code return, laid out as in
  \<^verbatim>\<open>struct GPURenderBuffer\<close> below.
\<close>

record GPUTexture =
  tex_w :: int
  tex_h :: int
  tex_target :: GLenum
  tex_bindcode :: GLuint
  tex_depth :: bool
  tex_stencil :: bool
  tex_fb :: "nat option"
  tex_fb_attachment :: int

text \<open>\<^verbatim>\<open>struct GPURenderBuffer\<close>:\<close>

record GPURenderBuffer =
  rb_width :: int
  rb_height :: int
  rb_samples :: int
  rb_fb :: "nat option"
  rb_fb_attachment :: int
  rb_depth :: bool
  rb_bindcode :: GLuint

text \<open>\<^verbatim>\<open>struct GPUOffScreen\<close>:\<close>

record GPUOffScreen =
  ofs_fb :: "nat option"
  ofs_color :: "nat option"
  ofs_depth :: "nat option"
  ofs_rbcolor :: "nat option"
  ofs_rbdepth :: "nat option"
  ofs_samples :: int

text \<open>
  The program state: the global \<^verbatim>\<open>GG.currentfb\<close>, the heap of each struct type, the next
  address \<^verbatim>\<open>MEM_callocN\<close> hands out, and the log of device calls (oldest first).
\<close>

record gpu_state =
  currentfb :: GLuint
  fbs :: "nat \<rightharpoonup> GPUFrameBuffer"
  texs :: "nat \<rightharpoonup> GPUTexture"
  rbs :: "nat \<rightharpoonup> GPURenderBuffer"
  ofss :: "nat \<rightharpoonup> GPUOffScreen"
  next_addr :: nat
  gl_log :: "gl_call list"

definition gl :: "gl_call \<Rightarrow> gpu_state \<Rightarrow> gpu_state" where
  "gl c s = s\<lparr>gl_log := gl_log s @ [c]\<rparr>"

definition fb_deref :: "gpu_state \<Rightarrow> nat option \<Rightarrow> error + GPUFrameBuffer" where
  "fb_deref s p =
     (case p of None \<Rightarrow> Inl NullDeref
      | Some a \<Rightarrow> (case fbs s a of None \<Rightarrow> Inl Dangling | Some f \<Rightarrow> Inr f))"

definition tex_deref :: "gpu_state \<Rightarrow> nat option \<Rightarrow> error + GPUTexture" where
  "tex_deref s p =
     (case p of None \<Rightarrow> Inl NullDeref
      | Some a \<Rightarrow> (case texs s a of None \<Rightarrow> Inl Dangling | Some t \<Rightarrow> Inr t))"

definition rb_deref :: "gpu_state \<Rightarrow> nat option \<Rightarrow> error + GPURenderBuffer" where
  "rb_deref s p =
     (case p of None \<Rightarrow> Inl NullDeref
      | Some a \<Rightarrow> (case rbs s a of None \<Rightarrow> Inl Dangling | Some r \<Rightarrow> Inr r))"

definition ofs_deref :: "gpu_state \<Rightarrow> nat option \<Rightarrow> error + GPUOffScreen" where
  "ofs_deref s p =
     (case p of None \<Rightarrow> Inl NullDeref
      | Some a \<Rightarrow> (case ofss s a of None \<Rightarrow> Inl Dangling | Some r \<Rightarrow> Inr r))"

subsection \<open>Texture accessors\<close>

text \<open>
  The accessors of \<^verbatim>\<open>gpu_texture.c\<close> are not among the sources. Modelled from the spec:
  each query returns the attribute of the surface, as the renderbuffer accessors of
  \<^verbatim>\<open>gpu_framebuffer.c\<close> do (\<^verbatim>\<open>return rb->depth;\<close>); it dereferences its argument.
\<close>

definition GPU_texture_target :: "gpu_state \<Rightarrow> nat option \<Rightarrow> error + GLenum" where
  "GPU_texture_target s tex = bindE (tex_deref s tex) (\<lambda>t. Inr (tex_target t))"

definition GPU_texture_opengl_bindcode :: "gpu_state \<Rightarrow> nat option \<Rightarrow> error + GLuint" where
  "GPU_texture_opengl_bindcode s tex = bindE (tex_deref s tex) (\<lambda>t. Inr (tex_bindcode t))"

definition GPU_texture_depth :: "gpu_state \<Rightarrow> nat option \<Rightarrow> error + bool" where
  "GPU_texture_depth s tex = bindE (tex_deref s tex) (\<lambda>t. Inr (tex_depth t))"

definition GPU_texture_stencil :: "gpu_state \<Rightarrow> nat option \<Rightarrow> error + bool" where
  "GPU_texture_stencil s tex = bindE (tex_deref s tex) (\<lambda>t. Inr (tex_stencil t))"

definition GPU_texture_width :: "gpu_state \<Rightarrow> nat option \<Rightarrow> error + int" where
  "GPU_texture_width s tex = bindE (tex_deref s tex) (\<lambda>t. Inr (tex_w t))"

definition GPU_texture_height :: "gpu_state \<Rightarrow> nat option \<Rightarrow> error + int" where
  "GPU_texture_height s tex = bindE (tex_deref s tex) (\<lambda>t. Inr (tex_h t))"

definition GPU_texture_framebuffer :: "gpu_state \<Rightarrow> nat option \<Rightarrow> error + nat option" where
  "GPU_texture_framebuffer s tex = bindE (tex_deref s tex) (\<lambda>t. Inr (tex_fb t))"

definition GPU_texture_framebuffer_attachment :: "gpu_state \<Rightarrow> nat option \<Rightarrow> error + int" where
  "GPU_texture_framebuffer_attachment s tex =
     bindE (tex_deref s tex) (\<lambda>t. Inr (tex_fb_attachment t))"

definition GPU_texture_framebuffer_set ::
  "gpu_state \<Rightarrow> nat option \<Rightarrow> nat option \<Rightarrow> int \<Rightarrow> error + gpu_state" where
  "GPU_texture_framebuffer_set s tex fb attachment =
     bindE (tex_deref s tex) (\<lambda>t.
       Inr (s\<lparr>texs := (texs s)(the tex \<mapsto> t\<lparr>tex_fb := fb, tex_fb_attachment := attachment\<rparr>)\<rparr>))"

subsection \<open>Renderbuffer accessors\<close>

definition GPU_renderbuffer_framebuffer :: "gpu_state \<Rightarrow> nat option \<Rightarrow> error + nat option" where
  "GPU_renderbuffer_framebuffer s rb = bindE (rb_deref s rb) (\<lambda>r. Inr (rb_fb r))"

definition GPU_renderbuffer_framebuffer_attachment ::
  "gpu_state \<Rightarrow> nat option \<Rightarrow> error + int" where
  "GPU_renderbuffer_framebuffer_attachment s rb =
     bindE (rb_deref s rb) (\<lambda>r. Inr (rb_fb_attachment r))"

definition GPU_renderbuffer_framebuffer_set ::
  "gpu_state \<Rightarrow> nat option \<Rightarrow> nat option \<Rightarrow> int \<Rightarrow> error + gpu_state" where
  "GPU_renderbuffer_framebuffer_set s rb fb attachement =
     bindE (rb_deref s rb) (\<lambda>r.
       Inr (s\<lparr>rbs := (rbs s)(the rb \<mapsto> r\<lparr>rb_fb := fb, rb_fb_attachment := attachement\<rparr>)\<rparr>))"

definition GPU_renderbuffer_bindcode :: "gpu_state \<Rightarrow> nat option \<Rightarrow> error + GLuint" where
  "GPU_renderbuffer_bindcode s rb = bindE (rb_deref s rb) (\<lambda>r. Inr (rb_bindcode r))"

definition GPU_renderbuffer_depth :: "gpu_state \<Rightarrow> nat option \<Rightarrow> error + bool" where
  "GPU_renderbuffer_depth s rb = bindE (rb_deref s rb) (\<lambda>r. Inr (rb_depth r))"

definition GPU_renderbuffer_width :: "gpu_state \<Rightarrow> nat option \<Rightarrow> error + int" where
  "GPU_renderbuffer_width s rb = bindE (rb_deref s rb) (\<lambda>r. Inr (rb_width r))"

definition GPU_renderbuffer_height :: "gpu_state \<Rightarrow> nat option \<Rightarrow> error + int" where
  "GPU_renderbuffer_height s rb = bindE (rb_deref s rb) (\<lambda>r. Inr (rb_height r))"

section \<open>GPUFrameBuffer: attach and detach\<close>

definition GPU_framebuffer_restore :: "gpu_state \<Rightarrow> gpu_state" where
  "GPU_framebuffer_restore s =
     (if currentfb s \<noteq> 0 then (gl (BindFramebuffer GL_FRAMEBUFFER 0) s)\<lparr>currentfb := 0\<rparr>
      else s)"

text \<open>
  \<^verbatim>\<open>GPU_framebuffer_texture_attach_target\<close>. The slot test comes before anything is
  dereferenced. The warning printed under \<^verbatim>\<open>G.debug\<close> changes no state and is left out.
\<close>

definition GPU_framebuffer_texture_attach_target ::
  "gpu_state \<Rightarrow> nat option \<Rightarrow> nat option \<Rightarrow> GLenum \<Rightarrow> int \<Rightarrow> int \<Rightarrow> error + (bool \<times> gpu_state)" where
  "GPU_framebuffer_texture_attach_target s fb tex target slot mip =
     (if slot \<ge> GPU_FB_MAX_SLOTS then Inr (False, s)
      else
        bindE (fb_deref s fb) (\<lambda>f.
        let s1 = (gl (BindFramebuffer GL_FRAMEBUFFER (object f)) s)\<lparr>currentfb := object f\<rparr> in
        bindE (GPU_texture_stencil s1 tex) (\<lambda>st.
        bindE (GPU_texture_depth s1 tex) (\<lambda>dp.
        let attachment =
              (if st \<and> dp then GL_DEPTH_STENCIL_ATTACHMENT
               else if dp then GL_DEPTH_ATTACHMENT
               else GL_COLOR_ATTACHMENT0 + word_of_int slot) in
        bindE (GPU_texture_opengl_bindcode s1 tex) (\<lambda>bc.
        let s2 = gl (FramebufferTexture GL_FRAMEBUFFER attachment bc mip) s1 in
        bindE (if dp then Inr (f\<lparr>depthtex := tex\<rparr>)
               else bindE (slot_set (colortex f) slot tex) (\<lambda>c. Inr (f\<lparr>colortex := c\<rparr>))) (\<lambda>f'.
        let s3 = s2\<lparr>fbs := (fbs s2)(the fb \<mapsto> f')\<rparr> in
        bindE (GPU_texture_framebuffer_set s3 tex fb slot) (\<lambda>s4.
        Inr (True, s4))))))))"

definition GPU_framebuffer_texture_attach ::
  "gpu_state \<Rightarrow> nat option \<Rightarrow> nat option \<Rightarrow> int \<Rightarrow> int \<Rightarrow> error + (bool \<times> gpu_state)" where
  "GPU_framebuffer_texture_attach s fb tex slot mip =
     bindE (GPU_texture_target s tex) (\<lambda>target.
       GPU_framebuffer_texture_attach_target s fb tex target slot mip)"

text \<open>\<^verbatim>\<open>GPU_framebuffer_texture_detach_target\<close>.\<close>

definition GPU_framebuffer_texture_detach_target ::
  "gpu_state \<Rightarrow> nat option \<Rightarrow> GLenum \<Rightarrow> error + gpu_state" where
  "GPU_framebuffer_texture_detach_target s tex target =
     bindE (GPU_texture_framebuffer s tex) (\<lambda>fb.
     bindE (GPU_texture_framebuffer_attachment s tex) (\<lambda>fb_attachment.
     if fb = None then Inr s
     else
       bindE (fb_deref s fb) (\<lambda>f.
       let s1 = (if currentfb s \<noteq> object f
                 then (gl (BindFramebuffer GL_FRAMEBUFFER (object f)) s)\<lparr>currentfb := object f\<rparr>
                 else s) in
       bindE (GPU_texture_stencil s1 tex) (\<lambda>st.
       bindE (GPU_texture_depth s1 tex) (\<lambda>dp.
       bindE (if st \<and> dp then Inr (f\<lparr>depthtex := None\<rparr>, GL_DEPTH_STENCIL_ATTACHMENT)
              else if dp then Inr (f\<lparr>depthtex := None\<rparr>, GL_DEPTH_ATTACHMENT)
              else
                bindE (slot_get (colortex f) fb_attachment) (\<lambda>cur.
                if cur \<noteq> tex then Inl AssertFailed
                else
                  bindE (slot_set (colortex f) fb_attachment None) (\<lambda>c.
                  Inr (f\<lparr>colortex := c\<rparr>,
                       GL_COLOR_ATTACHMENT0 + word_of_int fb_attachment)))) (\<lambda>(f', attachment).
       let s2 = s1\<lparr>fbs := (fbs s1)(the fb \<mapsto> f')\<rparr>;
           s3 = gl (FramebufferTexture GL_FRAMEBUFFER attachment 0 0) s2 in
       GPU_texture_framebuffer_set s3 tex None (- 1)))))))"

definition GPU_framebuffer_texture_detach :: "gpu_state \<Rightarrow> nat option \<Rightarrow> error + gpu_state" where
  "GPU_framebuffer_texture_detach s tex =
     bindE (GPU_texture_target s tex) (\<lambda>target.
       GPU_framebuffer_texture_detach_target s tex target)"

text \<open>
  \<^verbatim>\<open>GPU_framebuffer_renderbuffer_attach\<close>. \<open>error\<close> is what \<^verbatim>\<open>glGetError\<close> returns after
  the device-level attach.
\<close>

definition GPU_framebuffer_renderbuffer_attach ::
  "GLenum \<Rightarrow> gpu_state \<Rightarrow> nat option \<Rightarrow> nat option \<Rightarrow> int \<Rightarrow> error + (int \<times> gpu_state)" where
  "GPU_framebuffer_renderbuffer_attach glerror s fb rb slot =
     (if slot \<ge> GPU_FB_MAX_SLOTS then Inr (0, s)
      else
        bindE (GPU_renderbuffer_depth s rb) (\<lambda>dp.
        let attachement =
              (if dp then GL_DEPTH_ATTACHMENT else GL_COLOR_ATTACHMENT0 + word_of_int slot) in
        bindE (fb_deref s fb) (\<lambda>f.
        let s1 = (gl (BindFramebuffer GL_FRAMEBUFFER (object f)) s)\<lparr>currentfb := object f\<rparr> in
        bindE (GPU_renderbuffer_bindcode s1 rb) (\<lambda>bc.
        let s2 = gl (FramebufferRenderbuffer GL_FRAMEBUFFER attachement GL_RENDERBUFFER bc) s1 in
        if glerror = GL_INVALID_OPERATION then Inr (0, GPU_framebuffer_restore s2)
        else
          bindE (if dp then Inr (f\<lparr>depthrb := rb\<rparr>)
                 else bindE (slot_set (colorrb f) slot rb) (\<lambda>c. Inr (f\<lparr>colorrb := c\<rparr>))) (\<lambda>f'.
          let s3 = s2\<lparr>fbs := (fbs s2)(the fb \<mapsto> f')\<rparr> in
          bindE (GPU_renderbuffer_framebuffer_set s3 rb fb slot) (\<lambda>s4.
          Inr (1, s4)))))))"

text \<open>\<^verbatim>\<open>GPU_framebuffer_renderbuffer_detach\<close>.\<close>

definition GPU_framebuffer_renderbuffer_detach :: "gpu_state \<Rightarrow> nat option \<Rightarrow> error + gpu_state" where
  "GPU_framebuffer_renderbuffer_detach s rb =
     bindE (GPU_renderbuffer_framebuffer s rb) (\<lambda>fb.
     bindE (GPU_renderbuffer_framebuffer_attachment s rb) (\<lambda>fb_attachment.
     if fb = None then Inr s
     else
       bindE (fb_deref s fb) (\<lambda>f.
       let s1 = (if currentfb s \<noteq> object f
                 then (gl (BindFramebuffer GL_FRAMEBUFFER (object f)) s)\<lparr>currentfb := object f\<rparr>
                 else s) in
       bindE (GPU_renderbuffer_depth s1 rb) (\<lambda>dp.
       bindE (if dp then Inr (f\<lparr>depthrb := None\<rparr>, GL_DEPTH_ATTACHMENT)
              else
                bindE (slot_get (colorrb f) fb_attachment) (\<lambda>cur.
                if cur \<noteq> rb then Inl AssertFailed
                else
                  bindE (slot_set (colorrb f) fb_attachment None) (\<lambda>c.
                  Inr (f\<lparr>colorrb := c\<rparr>,
                       GL_COLOR_ATTACHMENT0 + word_of_int fb_attachment)))) (\<lambda>(f', attachment).
       let s2 = s1\<lparr>fbs := (fbs s1)(the fb \<mapsto> f')\<rparr>;
           s3 = gl (FramebufferRenderbuffer GL_FRAMEBUFFER attachment GL_RENDERBUFFER 0) s2 in
       GPU_renderbuffer_framebuffer_set s3 rb None (- 1))))))"

section \<open>GPUFrameBuffer: binding\<close>

text \<open>A counted loop \<^verbatim>\<open>for (i = ...; ...; i++)\<close> over the given indices, threading the
  variables the body assigns.\<close>

fun for_loop :: "('acc \<Rightarrow> int \<Rightarrow> error + 'acc) \<Rightarrow> int list \<Rightarrow> 'acc \<Rightarrow> error + 'acc" where
  "for_loop body [] acc = Inr acc"
| "for_loop body (i # is) acc = bindE (body acc i) (for_loop body is)"

text \<open>
  The loop body of \<^verbatim>\<open>GPU_framebuffer_bind\<close>. Its variables are the entries written to
  \<^verbatim>\<open>attachments\<close> so far (\<^verbatim>\<open>numslots\<close> is their number), \<^verbatim>\<open>readattachement\<close>, and
  the local \<^verbatim>\<open>tex\<close>, which is declared without a value (\<open>None\<close>: not yet assigned).
\<close>

definition bind_body ::
  "nat option slots \<Rightarrow> GLenum list \<times> GLenum \<times> nat option option \<Rightarrow> int \<Rightarrow>
   error + (GLenum list \<times> GLenum \<times> nat option option)" where
  "bind_body ct acc i =
     (case acc of (attachments, readattachement, tex) \<Rightarrow>
        bindE (slot_get ct i) (\<lambda>e.
        if e \<noteq> None then
          Inr (attachments @ [GL_COLOR_ATTACHMENT0 + word_of_int i],
               (if readattachement = 0 then GL_COLOR_ATTACHMENT0 + word_of_int i
                else readattachement),
               Some e)
        else Inr acc))"

definition read_local :: "'a option \<Rightarrow> error + 'a" where
  "read_local v = (case v of None \<Rightarrow> Inl Uninitialised | Some x \<Rightarrow> Inr x)"

definition GPU_framebuffer_bind :: "gpu_state \<Rightarrow> nat option \<Rightarrow> error + gpu_state" where
  "GPU_framebuffer_bind s fb =
     bindE (fb_deref s fb) (\<lambda>f.
     bindE (for_loop (bind_body (colortex f)) [0, 1, 2, 3] ([], 0, None))
       (\<lambda>(attachments, readattachement, tex0).
     let numslots = length attachments;
         s1 = gl (BindFramebuffer GL_FRAMEBUFFER (object f)) s;
         (s2, tex) =
           (if numslots = 0
            then (gl (ReadBuffer GL_NONE) (gl (DrawBuffer GL_NONE) s1), Some (depthtex f))
            else (gl (ReadBuffer readattachement) (gl (DrawBuffers attachments) s1), tex0)) in
     bindE (read_local tex) (\<lambda>texp.
     bindE (GPU_texture_width s2 texp) (\<lambda>w.
     bindE (GPU_texture_height s2 texp) (\<lambda>h.
     Inr ((gl (Viewport 0 0 w h) s2)\<lparr>currentfb := object f\<rparr>))))))"

definition GPU_framebuffer_bind_simple :: "gpu_state \<Rightarrow> nat option \<Rightarrow> error + gpu_state" where
  "GPU_framebuffer_bind_simple s fb =
     bindE (fb_deref s fb) (\<lambda>f.
     Inr ((gl (ReadBuffer GL_COLOR_ATTACHMENT0)
            (gl (DrawBuffer GL_COLOR_ATTACHMENT0)
              (gl (BindFramebuffer GL_FRAMEBUFFER (object f)) s)))\<lparr>currentfb := object f\<rparr>))"

definition GPU_framebuffer_bound :: "gpu_state \<Rightarrow> nat option \<Rightarrow> error + bool" where
  "GPU_framebuffer_bound s fb = bindE (fb_deref s fb) (\<lambda>f. Inr (object f = currentfb s))"

text \<open>\<^verbatim>\<open>GPU_framebuffer_check_valid\<close>; \<open>status\<close> is what \<^verbatim>\<open>glCheckFramebufferStatus\<close>
  returns.\<close>

definition GPU_framebuffer_check_valid ::
  "GLenum \<Rightarrow> gpu_state \<Rightarrow> nat option \<Rightarrow> error + (bool \<times> gpu_state)" where
  "GPU_framebuffer_check_valid status s fb =
     bindE (fb_deref s fb) (\<lambda>f.
     let s1 = (gl (BindFramebuffer GL_FRAMEBUFFER (object f)) s)\<lparr>currentfb := object f\<rparr> in
     if status \<noteq> GL_FRAMEBUFFER_COMPLETE then Inr (False, GPU_framebuffer_restore s1)
     else Inr (True, s1))"

section \<open>GPUFrameBuffer: creation and release\<close>

text \<open>The two detach loops of \<^verbatim>\<open>GPU_framebuffer_free\<close> read the slot from the
  framebuffer as it is at that iteration.\<close>

definition free_colortex_body :: "nat option \<Rightarrow> gpu_state \<Rightarrow> int \<Rightarrow> error + gpu_state" where
  "free_colortex_body fb s i =
     bindE (fb_deref s fb) (\<lambda>f.
     bindE (slot_get (colortex f) i) (\<lambda>e.
     if e \<noteq> None then GPU_framebuffer_texture_detach s e else Inr s))"

definition free_colorrb_body :: "nat option \<Rightarrow> gpu_state \<Rightarrow> int \<Rightarrow> error + gpu_state" where
  "free_colorrb_body fb s i =
     bindE (fb_deref s fb) (\<lambda>f.
     bindE (slot_get (colorrb f) i) (\<lambda>e.
     if e \<noteq> None then GPU_framebuffer_renderbuffer_detach s e else Inr s))"

definition GPU_framebuffer_free :: "gpu_state \<Rightarrow> nat option \<Rightarrow> error + gpu_state" where
  "GPU_framebuffer_free s fb =
     bindE (fb_deref s fb) (\<lambda>f.
     bindE (if depthtex f \<noteq> None then GPU_framebuffer_texture_detach s (depthtex f)
            else Inr s) (\<lambda>s1.
     bindE (for_loop (free_colortex_body fb) [0, 1, 2, 3] s1) (\<lambda>s2.
     bindE (fb_deref s2 fb) (\<lambda>f2.
     bindE (if depthrb f2 \<noteq> None then GPU_framebuffer_renderbuffer_detach s2 (depthrb f2)
            else Inr s2) (\<lambda>s3.
     bindE (for_loop (free_colorrb_body fb) [0, 1, 2, 3] s3) (\<lambda>s4.
     bindE (fb_deref s4 fb) (\<lambda>f4.
     let s5 =
           (if object f4 \<noteq> 0 then
              (let s' = gl (DeleteFramebuffers (object f4)) s4 in
               if currentfb s' = object f4
               then (gl (BindFramebuffer GL_FRAMEBUFFER 0) s')\<lparr>currentfb := 0\<rparr>
               else s')
            else s4) in
     Inr (s5\<lparr>fbs := (fbs s5)(the fb := None)\<rparr>))))))))"

text \<open>What \<^verbatim>\<open>MEM_callocN\<close> returns: every field zero.\<close>

definition calloc_GPUFrameBuffer :: GPUFrameBuffer where
  "calloc_GPUFrameBuffer =
     \<lparr>object = 0, colortex = Slots None None None None, depthtex = None,
      colorrb = Slots None None None None, depthrb = None\<rparr>"

text \<open>\<^verbatim>\<open>GPU_framebuffer_create\<close>; \<open>name\<close> is what \<^verbatim>\<open>glGenFramebuffers\<close> writes to
  \<^verbatim>\<open>fb->object\<close> (0 when the device generates no name).\<close>

definition GPU_framebuffer_create :: "GLuint \<Rightarrow> gpu_state \<Rightarrow> error + (nat option \<times> gpu_state)" where
  "GPU_framebuffer_create name s =
     (let fb = next_addr s;
          s1 = s\<lparr>next_addr := fb + 1,
                 fbs := (fbs s)(fb \<mapsto> calloc_GPUFrameBuffer\<lparr>object := name\<rparr>)\<rparr> in
      if name = 0 then bindE (GPU_framebuffer_free s1 (Some fb)) (\<lambda>s2. Inr (None, s2))
      else
        Inr (Some fb,
             gl (BindFramebuffer GL_FRAMEBUFFER 0)
               (gl (DrawBuffer GL_NONE)
                 (gl (ReadBuffer GL_NONE)
                   (gl (BindFramebuffer GL_FRAMEBUFFER name) s1)))))"

section \<open>GPURenderBuffer\<close>

text \<open>The enumerations \<^verbatim>\<open>GPUTextureFormat\<close> and \<^verbatim>\<open>GPURenderBufferType\<close> are declared in
  headers that are not among the sources; the constructors are the values the code
  names, and \<open>GPU_FORMAT_OTHER\<close> stands for every format of the \<^verbatim>\<open>default\<close> branch.\<close>

datatype GPUTextureFormat = GPU_RGBA8 | GPU_RGBA16F | GPU_RGBA32F | GPU_FORMAT_OTHER

datatype GPURenderBufferType = GPU_RENDERBUFFER_COLOR | GPU_RENDERBUFFER_DEPTH

definition calloc_GPURenderBuffer :: GPURenderBuffer where
  "calloc_GPURenderBuffer =
     \<lparr>rb_width = 0, rb_height = 0, rb_samples = 0, rb_fb = None, rb_fb_attachment = 0,
      rb_depth = False, rb_bindcode = 0\<rparr>"

definition GPU_renderbuffer_free :: "gpu_state \<Rightarrow> nat option \<Rightarrow> error + gpu_state" where
  "GPU_renderbuffer_free s rb =
     bindE (rb_deref s rb) (\<lambda>r.
     let s1 = (if rb_bindcode r \<noteq> 0 then gl (DeleteRenderbuffers (rb_bindcode r)) s else s) in
     Inr (s1\<lparr>rbs := (rbs s1)(the rb := None)\<rparr>))"

text \<open>\<^verbatim>\<open>GPU_renderbuffer_create\<close>; \<open>name\<close> is what \<^verbatim>\<open>glGenRenderbuffers\<close> writes to
  \<^verbatim>\<open>rb->bindcode\<close>.\<close>

definition GPU_renderbuffer_create ::
  "GLuint \<Rightarrow> gpu_state \<Rightarrow> int \<Rightarrow> int \<Rightarrow> int \<Rightarrow> GPUTextureFormat \<Rightarrow> GPURenderBufferType \<Rightarrow>
   error + (nat option \<times> gpu_state)" where
  "GPU_renderbuffer_create name s width height samples data_type type =
     (let rb = next_addr s;
          r0 = calloc_GPURenderBuffer\<lparr>rb_bindcode := name\<rparr>;
          s1 = s\<lparr>next_addr := rb + 1, rbs := (rbs s)(rb \<mapsto> r0)\<rparr> in
      if name = 0 then bindE (GPU_renderbuffer_free s1 (Some rb)) (\<lambda>s2. Inr (None, s2))
      else
        let r1 = r0\<lparr>rb_width := width, rb_height := height, rb_samples := samples\<rparr>;
            s2 = gl (BindRenderbuffer GL_RENDERBUFFER name) s1;
            (r2, s3) =
              (if type = GPU_RENDERBUFFER_DEPTH then
                 (r1\<lparr>rb_depth := True\<rparr>,
                  (if samples > 0
                   then gl (RenderbufferStorageMultisample GL_RENDERBUFFER samples
                              GL_DEPTH_COMPONENT width height) s2
                   else gl (RenderbufferStorage GL_RENDERBUFFER GL_DEPTH_COMPONENT
                              width height) s2))
               else
                 (let internalformat =
                        (case data_type of
                           GPU_RGBA8 \<Rightarrow> GL_RGBA8
                         | GPU_RGBA16F \<Rightarrow> GL_RGBA16F
                         | GPU_RGBA32F \<Rightarrow> GL_RGBA32F
                         | GPU_FORMAT_OTHER \<Rightarrow> GL_RGBA8) in
                  (r1,
                   (if samples > 0
                    then gl (RenderbufferStorageMultisample GL_RENDERBUFFER samples
                               internalformat width height) s2
                    else gl (RenderbufferStorage GL_RENDERBUFFER internalformat
                               width height) s2))));
            s4 = gl (BindRenderbuffer GL_RENDERBUFFER 0) s3 in
        Inr (Some rb, s4\<lparr>rbs := (rbs s4)(rb \<mapsto> r2)\<rparr>))"

section \<open>GPUOffScreen\<close>

text \<open>
  The answers of the device that \<^verbatim>\<open>GPU_offscreen_create\<close> branches on: the three
  extension flags, the generated names, the error code after each renderbuffer attach
  and the completeness status. Texture creation (\<^verbatim>\<open>GPU_texture_create_2D_custom\<close>,
  \<^verbatim>\<open>GPU_texture_create_depth_multisample\<close>) is in \<^verbatim>\<open>gpu_texture.c\<close>, not among the
  sources: the device gives the texture each call creates, or \<open>None\<close> when it fails.
\<close>

record device =
  GLEW_EXT_framebuffer_multisample :: bool
  GLEW_ARB_texture_multisample :: bool
  GLEW_EXT_framebuffer_blit :: bool
  glGenFramebuffers_name :: GLuint
  glGenRenderbuffers_name :: "GPURenderBufferType \<Rightarrow> GLuint"
  glGetError_attach :: "GPURenderBufferType \<Rightarrow> GLenum"
  glCheckFramebufferStatus_result :: GLenum
  texture_2D_custom :: "int \<Rightarrow> int \<Rightarrow> int \<Rightarrow> GPUTextureFormat \<Rightarrow> int \<Rightarrow> GPUTexture option"
  texture_depth_multisample :: "int \<Rightarrow> int \<Rightarrow> int \<Rightarrow> GPUTexture option"

text \<open>The bits of \<^verbatim>\<open>GPUOffScreenMode\<close> are declared in \<^verbatim>\<open>GPU_framebuffer.h\<close>, not
  among the sources; they are parameters.\<close>

record mode_bits =
  GPU_OFFSCREEN_RENDERBUFFER_COLOR :: "32 word"
  GPU_OFFSCREEN_RENDERBUFFER_DEPTH :: "32 word"
  GPU_OFFSCREEN_DEPTH_COMPARE :: "32 word"

text \<open>
  Modelled from the spec: the RenderSurface provider creates a surface, and a failed
  creation returns NULL. \<open>made\<close> is the texture the device created.
\<close>

definition GPU_texture_create :: "GPUTexture option \<Rightarrow> gpu_state \<Rightarrow> nat option \<times> gpu_state" where
  "GPU_texture_create made s =
     (case made of
        None \<Rightarrow> (None, s)
      | Some t \<Rightarrow>
          (Some (next_addr s),
           s\<lparr>next_addr := next_addr s + 1, texs := (texs s)(next_addr s \<mapsto> t)\<rparr>))"

text \<open>
  Modelled from the spec: \<^verbatim>\<open>GPU_texture_free\<close> (\<^verbatim>\<open>gpu_texture.c\<close>, not among the
  sources) destroys a surface; if it is attached, the forward reference on its
  framebuffer is cleared first (forced detach before free).
\<close>

definition GPU_texture_free :: "gpu_state \<Rightarrow> nat option \<Rightarrow> error + gpu_state" where
  "GPU_texture_free s tex =
     bindE (GPU_framebuffer_texture_detach s tex) (\<lambda>s1.
     Inr (s1\<lparr>texs := (texs s1)(the tex := None)\<rparr>))"

definition calloc_GPUOffScreen :: GPUOffScreen where
  "calloc_GPUOffScreen =
     \<lparr>ofs_fb = None, ofs_color = None, ofs_depth = None, ofs_rbcolor = None,
      ofs_rbdepth = None, ofs_samples = 0\<rparr>"

definition GPU_offscreen_free :: "gpu_state \<Rightarrow> nat option \<Rightarrow> error + gpu_state" where
  "GPU_offscreen_free s ofs =
     bindE (ofs_deref s ofs) (\<lambda>os.
     bindE (if ofs_fb os \<noteq> None then GPU_framebuffer_free s (ofs_fb os) else Inr s) (\<lambda>s1.
     bindE (if ofs_color os \<noteq> None then GPU_texture_free s1 (ofs_color os) else Inr s1) (\<lambda>s2.
     bindE (if ofs_depth os \<noteq> None then GPU_texture_free s2 (ofs_depth os) else Inr s2) (\<lambda>s3.
     bindE (if ofs_rbcolor os \<noteq> None then GPU_renderbuffer_free s3 (ofs_rbcolor os)
            else Inr s3) (\<lambda>s4.
     bindE (if ofs_rbdepth os \<noteq> None then GPU_renderbuffer_free s4 (ofs_rbdepth os)
            else Inr s4) (\<lambda>s5.
     Inr (s5\<lparr>ofss := (ofss s5)(the ofs := None)\<rparr>)))))))"

text \<open>The exit \<^verbatim>\<open>GPU_offscreen_free(ofs); return NULL;\<close> of \<^verbatim>\<open>GPU_offscreen_create\<close>.\<close>

definition offscreen_fail :: "gpu_state \<Rightarrow> nat \<Rightarrow> error + (nat option \<times> gpu_state)" where
  "offscreen_fail s ofs = bindE (GPU_offscreen_free s (Some ofs)) (\<lambda>s'. Inr (None, s'))"

text \<open>The store \<^verbatim>\<open>ofs->field = v\<close>.\<close>

definition ofs_store :: "gpu_state \<Rightarrow> nat \<Rightarrow> GPUOffScreen \<Rightarrow> gpu_state" where
  "ofs_store s ofs v = s\<lparr>ofss := (ofss s)(ofs \<mapsto> v)\<rparr>"

text \<open>The test under \<^verbatim>\<open>if (samples)\<close>: the value \<^verbatim>\<open>samples\<close> has afterwards.\<close>

definition offscreen_samples :: "device \<Rightarrow> mode_bits \<Rightarrow> int \<Rightarrow> 32 word \<Rightarrow> int" where
  "offscreen_samples dev bits samples mode =
     (if samples \<noteq> 0 then
        (if \<not> GLEW_EXT_framebuffer_multisample dev \<or>
            (\<not> GLEW_ARB_texture_multisample dev \<and>
             (mode AND GPU_OFFSCREEN_RENDERBUFFER_COLOR bits = 0 \<or>
              mode AND GPU_OFFSCREEN_RENDERBUFFER_DEPTH bits = 0)) \<or>
            \<not> GLEW_EXT_framebuffer_blit dev
         then 0 else samples)
      else samples)"

text \<open>The color branch of \<^verbatim>\<open>GPU_offscreen_create\<close> (\<^verbatim>\<open>if (mode &
  GPU_OFFSCREEN_RENDERBUFFER_COLOR) ... else ...\<close>). The result \<open>None\<close> is the return of
  NULL.\<close>

definition offscreen_create_color ::
  "device \<Rightarrow> mode_bits \<Rightarrow> gpu_state \<Rightarrow> nat \<Rightarrow> int \<Rightarrow> int \<Rightarrow> int \<Rightarrow> GPUTextureFormat \<Rightarrow> 32 word \<Rightarrow>
   error + (nat option \<times> gpu_state)" where
  "offscreen_create_color dev bits s ofs width height samples data_type mode =
     bindE (ofs_deref s (Some ofs)) (\<lambda>os.
     if mode AND GPU_OFFSCREEN_RENDERBUFFER_COLOR bits \<noteq> 0 then
       bindE (GPU_renderbuffer_create (glGenRenderbuffers_name dev GPU_RENDERBUFFER_COLOR) s
                width height samples data_type GPU_RENDERBUFFER_COLOR) (\<lambda>(rb, s1).
       let o1 = os\<lparr>ofs_rbcolor := rb\<rparr>; s2 = ofs_store s1 ofs o1 in
       if ofs_rbcolor o1 = None then offscreen_fail s2 ofs
       else
         bindE (GPU_framebuffer_renderbuffer_attach (glGetError_attach dev GPU_RENDERBUFFER_COLOR)
                  s2 (ofs_fb o1) (ofs_rbcolor o1) 0) (\<lambda>(r, s3).
         if r = 0 then offscreen_fail s3 ofs else Inr (Some ofs, s3)))
     else
       (let (tex, s1) = GPU_texture_create (texture_2D_custom dev width height 4 data_type samples) s;
            o1 = os\<lparr>ofs_color := tex\<rparr>; s2 = ofs_store s1 ofs o1 in
        if ofs_color o1 = None then offscreen_fail s2 ofs
        else
          bindE (GPU_framebuffer_texture_attach s2 (ofs_fb o1) (ofs_depth o1) 0 0) (\<lambda>(r, s3).
          if \<not> r then offscreen_fail s3 ofs else Inr (Some ofs, s3))))"

text \<open>The depth branch (\<^verbatim>\<open>if (mode & GPU_OFFSCREEN_RENDERBUFFER_DEPTH) ... else ...\<close>).
  \<^verbatim>\<open>GPU_texture_compare_mode\<close> sets a sampling parameter of the texture on the device and
  changes nothing of the modelled state.\<close>

definition offscreen_create_depth ::
  "device \<Rightarrow> mode_bits \<Rightarrow> gpu_state \<Rightarrow> nat \<Rightarrow> int \<Rightarrow> int \<Rightarrow> int \<Rightarrow> GPUTextureFormat \<Rightarrow> 32 word \<Rightarrow>
   error + (nat option \<times> gpu_state)" where
  "offscreen_create_depth dev bits s ofs width height samples data_type mode =
     bindE (ofs_deref s (Some ofs)) (\<lambda>os.
     if mode AND GPU_OFFSCREEN_RENDERBUFFER_DEPTH bits \<noteq> 0 then
       bindE (GPU_renderbuffer_create (glGenRenderbuffers_name dev GPU_RENDERBUFFER_DEPTH) s
                width height samples data_type GPU_RENDERBUFFER_DEPTH) (\<lambda>(rb, s1).
       let o1 = os\<lparr>ofs_rbdepth := rb\<rparr>; s2 = ofs_store s1 ofs o1 in
       if ofs_rbdepth o1 = None then offscreen_fail s2 ofs
       else
         bindE (GPU_framebuffer_renderbuffer_attach (glGetError_attach dev GPU_RENDERBUFFER_DEPTH)
                  s2 (ofs_fb o1) (ofs_rbdepth o1) 0) (\<lambda>(r, s3).
         if r = 0 then offscreen_fail s3 ofs else Inr (Some ofs, s3)))
     else
       (let (tex, s1) = GPU_texture_create (texture_depth_multisample dev width height samples) s;
            o1 = os\<lparr>ofs_depth := tex\<rparr>; s2 = ofs_store s1 ofs o1 in
        if ofs_depth o1 = None then offscreen_fail s2 ofs
        else
          bindE (GPU_framebuffer_texture_attach s2 (ofs_fb o1) (ofs_color o1) 0 0) (\<lambda>(r, s3).
          if \<not> r then offscreen_fail s3 ofs else Inr (Some ofs, s3))))"

text \<open>\<^verbatim>\<open>GPU_offscreen_create\<close>. The result \<open>None\<close> is the return of NULL.\<close>

definition GPU_offscreen_create ::
  "device \<Rightarrow> mode_bits \<Rightarrow> gpu_state \<Rightarrow> int \<Rightarrow> int \<Rightarrow> int \<Rightarrow> GPUTextureFormat \<Rightarrow> 32 word \<Rightarrow>
   error + (nat option \<times> gpu_state)" where
  "GPU_offscreen_create dev bits s width height samples0 data_type mode =
     (let ofs = next_addr s;
          s0 = s\<lparr>next_addr := ofs + 1, ofss := (ofss s)(ofs \<mapsto> calloc_GPUOffScreen)\<rparr> in
      bindE (GPU_framebuffer_create (glGenFramebuffers_name dev) s0) (\<lambda>(fb, s1).
      let o1 = calloc_GPUOffScreen\<lparr>ofs_fb := fb\<rparr>; s2 = ofs_store s1 ofs o1 in
      if ofs_fb o1 = None then offscreen_fail s2 ofs
      else
        let samples = offscreen_samples dev bits samples0 mode;
            s3 = ofs_store s2 ofs (o1\<lparr>ofs_samples := samples\<rparr>) in
        bindE (offscreen_create_color dev bits s3 ofs width height samples data_type mode)
          (\<lambda>(r1, s4).
        if r1 = None then Inr (None, s4)
        else
          bindE (offscreen_create_depth dev bits s4 ofs width height samples data_type mode)
            (\<lambda>(r2, s5).
          if r2 = None then Inr (None, s5)
          else
            bindE (ofs_deref s5 (Some ofs)) (\<lambda>os.
            bindE (GPU_framebuffer_check_valid (glCheckFramebufferStatus_result dev) s5 (ofs_fb os))
              (\<lambda>(valid, s6).
            if \<not> valid then offscreen_fail s6 ofs
            else Inr (Some ofs, GPU_framebuffer_restore s6)))))))"

definition GPU_offscreen_width :: "gpu_state \<Rightarrow> nat option \<Rightarrow> error + int" where
  "GPU_offscreen_width s ofs =
     bindE (ofs_deref s ofs) (\<lambda>os.
     if ofs_color os \<noteq> None then GPU_texture_width s (ofs_color os)
     else if ofs_rbcolor os \<noteq> None then GPU_renderbuffer_width s (ofs_rbcolor os)
     else Inr 0)"

definition GPU_offscreen_height :: "gpu_state \<Rightarrow> nat option \<Rightarrow> error + int" where
  "GPU_offscreen_height s ofs =
     bindE (ofs_deref s ofs) (\<lambda>os.
     if ofs_color os \<noteq> None then GPU_texture_height s (ofs_color os)
     else if ofs_rbcolor os \<noteq> None then GPU_renderbuffer_height s (ofs_rbcolor os)
     else Inr 0)"

definition GPU_offscreen_samples :: "gpu_state \<Rightarrow> nat option \<Rightarrow> error + int" where
  "GPU_offscreen_samples s ofs = bindE (ofs_deref s ofs) (\<lambda>os. Inr (ofs_samples os))"

text \<open>
  \<^verbatim>\<open>min_ff\<close> takes and returns \<^verbatim>\<open>float\<close>; \<^verbatim>\<open>GPU_offscreen_blit\<close> passes it \<^verbatim>\<open>int\<close>
  values and stores the result in an \<^verbatim>\<open>int\<close>. \<open>float_from_int\<close> is the value of the
  nearest binary32 number (24 significant bits, ties to even), which is again an
  integer; \<open>int_from_float\<close> is the conversion back, undefined in C outside the range of
  \<^verbatim>\<open>int\<close>. \<^verbatim>\<open>min_ff\<close> itself is in \<^verbatim>\<open>BLI_math_base\<close>, not among the sources:
  modelled from the spec, it is the minimum.
\<close>

function excess_bits :: "nat \<Rightarrow> nat" where
  "excess_bits a = (if a < 2 ^ 24 then 0 else Suc (excess_bits (a div 2)))"
  by pat_completeness auto
termination
  by (relation "measure id") auto

definition float_from_int :: "int \<Rightarrow> int" where
  "float_from_int n =
     (let a = nat \<bar>n\<bar>; e = excess_bits a; q = a div 2 ^ e; r = a mod 2 ^ e;
          q' = (if 2 * r > 2 ^ e \<or> (2 * r = 2 ^ e \<and> odd q) then q + 1 else q)
      in sgn n * int (q' * 2 ^ e))"

definition int_from_float :: "int \<Rightarrow> error + int" where
  "int_from_float v = (if - (2 ^ 31) \<le> v \<and> v < 2 ^ 31 then Inr v else Inl ConversionRange)"

definition min_ff :: "int \<Rightarrow> int \<Rightarrow> int" where
  "min_ff a b = (if a < b then a else b)"

text \<open>\<^verbatim>\<open>GPU_offscreen_blit\<close>.\<close>

definition GPU_offscreen_blit ::
  "gpu_state \<Rightarrow> nat option \<Rightarrow> nat option \<Rightarrow> bool \<Rightarrow> bool \<Rightarrow> error + gpu_state" where
  "GPU_offscreen_blit s srcofs dstofs color depth =
     (if \<not> (color \<or> depth) then Inl AssertFailed
      else
        bindE (ofs_deref s srcofs) (\<lambda>so.
        bindE (fb_deref s (ofs_fb so)) (\<lambda>sf.
        let s1 = gl (BindFramebuffer GL_READ_FRAMEBUFFER (object sf)) s in
        bindE (ofs_deref s1 dstofs) (\<lambda>dso.
        bindE (fb_deref s1 (ofs_fb dso)) (\<lambda>df.
        let s2 = gl (BindFramebuffer GL_DRAW_FRAMEBUFFER (object df)) s1;
            s3 = gl (DrawBuffer GL_COLOR_ATTACHMENT0) s2;
            s4 = gl (ReadBuffer GL_COLOR_ATTACHMENT0) s3 in
        bindE (GPU_offscreen_height s4 srcofs) (\<lambda>sh.
        bindE (GPU_offscreen_height s4 dstofs) (\<lambda>dh.
        bindE (int_from_float (min_ff (float_from_int sh) (float_from_int dh))) (\<lambda>height.
        bindE (GPU_offscreen_width s4 srcofs) (\<lambda>sw.
        bindE (GPU_offscreen_width s4 dstofs) (\<lambda>dw.
        bindE (int_from_float (min_ff (float_from_int sw) (float_from_int dw))) (\<lambda>width.
        let mask0 = 0;
            mask1 = (if color then mask0 OR GL_COLOR_BUFFER_BIT else mask0);
            mask = (if depth then mask1 OR GL_DEPTH_BUFFER_BIT else mask1);
            s5 = gl (BlitFramebuffer 0 0 width height 0 0 width height mask GL_NEAREST) s4 in
        GPU_framebuffer_bind_simple s5 (ofs_fb dso))))))))))))"

section \<open>Concrete inputs\<close>

text \<open>A small scene for evaluating the operations: two framebuffers, two color
  textures of different sizes, a depth texture, a color and a depth renderbuffer;
  nothing is attached.\<close>

definition GL_TEXTURE_2D :: GLenum where "GL_TEXTURE_2D = 0x0DE1"

definition color_texture :: "int \<Rightarrow> int \<Rightarrow> GLuint \<Rightarrow> GPUTexture" where
  "color_texture w h code =
     \<lparr>tex_w = w, tex_h = h, tex_target = GL_TEXTURE_2D, tex_bindcode = code, tex_depth = False,
      tex_stencil = False, tex_fb = None, tex_fb_attachment = - 1\<rparr>"

definition depth_texture :: "int \<Rightarrow> int \<Rightarrow> GLuint \<Rightarrow> GPUTexture" where
  "depth_texture w h code =
     \<lparr>tex_w = w, tex_h = h, tex_target = GL_TEXTURE_2D, tex_bindcode = code, tex_depth = True,
      tex_stencil = False, tex_fb = None, tex_fb_attachment = - 1\<rparr>"

definition scene :: gpu_state where
  "scene =
     \<lparr>currentfb = 0,
      fbs = [1 \<mapsto> calloc_GPUFrameBuffer\<lparr>object := 11\<rparr>,
             2 \<mapsto> calloc_GPUFrameBuffer\<lparr>object := 12\<rparr>],
      texs = [10 \<mapsto> color_texture 64 64 21, 11 \<mapsto> color_texture 128 128 22,
              12 \<mapsto> depth_texture 64 64 23],
      rbs = [20 \<mapsto> calloc_GPURenderBuffer\<lparr>rb_width := 64, rb_height := 64, rb_bindcode := 31\<rparr>,
             21 \<mapsto> calloc_GPURenderBuffer\<lparr>rb_width := 64, rb_height := 64, rb_bindcode := 32,
                     rb_depth := True\<rparr>],
      ofss = Map.empty, next_addr = 30, gl_log = []\<rparr>"

text \<open>The scene after texture 10 was attached to slot 0 of framebuffer 1.\<close>

definition scene_attached :: gpu_state where
  "scene_attached =
     scene\<lparr>fbs := (fbs scene)
                (1 \<mapsto> calloc_GPUFrameBuffer\<lparr>object := 11,
                                             colortex := Slots (Some 10) None None None\<rparr>),
            texs := (texs scene)
                (10 \<mapsto> (color_texture 64 64 21)\<lparr>tex_fb := Some 1, tex_fb_attachment := 0\<rparr>)\<rparr>"

text \<open>The scene with texture 10 (64 x 64) in slot 0 and texture 11 (128 x 128) in slot 1
  of framebuffer 1.\<close>

definition scene_two_colors :: gpu_state where
  "scene_two_colors =
     scene\<lparr>fbs := (fbs scene)
                (1 \<mapsto> calloc_GPUFrameBuffer\<lparr>object := 11,
                                             colortex := Slots (Some 10) (Some 11) None None\<rparr>),
            texs := (texs scene)
                (10 \<mapsto> (color_texture 64 64 21)\<lparr>tex_fb := Some 1, tex_fb_attachment := 0\<rparr>,
                 11 \<mapsto> (color_texture 128 128 22)\<lparr>tex_fb := Some 1, tex_fb_attachment := 1\<rparr>)\<rparr>"

text \<open>The scene with the two renderbuffers attached to framebuffer 1, and no texture.\<close>

definition scene_renderbuffers :: gpu_state where
  "scene_renderbuffers =
     scene\<lparr>fbs := (fbs scene)
                (1 \<mapsto> calloc_GPUFrameBuffer\<lparr>object := 11,
                       colorrb := Slots (Some 20) None None None, depthrb := Some 21\<rparr>),
            rbs := [20 \<mapsto> calloc_GPURenderBuffer\<lparr>rb_width := 64, rb_height := 64,
                            rb_bindcode := 31, rb_fb := Some 1\<rparr>,
                    21 \<mapsto> calloc_GPURenderBuffer\<lparr>rb_width := 64, rb_height := 64,
                            rb_bindcode := 32, rb_depth := True, rb_fb := Some 1\<rparr>]\<rparr>"

text \<open>The scene with two offscreen contexts: 40 owns framebuffer 1 and the 128 x 128
  color texture 11, 41 owns framebuffer 2 and the 64 x 64 color renderbuffer 20.\<close>

definition scene_offscreens :: gpu_state where
  "scene_offscreens =
     scene\<lparr>ofss := [40 \<mapsto> calloc_GPUOffScreen\<lparr>ofs_fb := Some 1, ofs_color := Some 11\<rparr>,
                     41 \<mapsto> calloc_GPUOffScreen\<lparr>ofs_fb := Some 2, ofs_rbcolor := Some 20\<rparr>]\<rparr>"

text \<open>A device that has the three extensions and on which every allocation, attach and
  completeness check succeeds; the same device without the blit extension, and without
  multisample textures; and values for the mode bits.\<close>

definition device_ok :: device where
  "device_ok =
     \<lparr>GLEW_EXT_framebuffer_multisample = True, GLEW_ARB_texture_multisample = True,
      GLEW_EXT_framebuffer_blit = True, glGenFramebuffers_name = 5,
      glGenRenderbuffers_name =
        (\<lambda>t. case t of GPU_RENDERBUFFER_COLOR \<Rightarrow> 6 | GPU_RENDERBUFFER_DEPTH \<Rightarrow> 7),
      glGetError_attach = (\<lambda>t. GL_NO_ERROR),
      glCheckFramebufferStatus_result = GL_FRAMEBUFFER_COMPLETE,
      texture_2D_custom = (\<lambda>w h channels data_type samples. Some (color_texture w h 8)),
      texture_depth_multisample = (\<lambda>w h samples. Some (depth_texture w h 9))\<rparr>"

definition device_no_blit :: device where
  "device_no_blit = device_ok\<lparr>GLEW_EXT_framebuffer_blit := False\<rparr>"

definition device_no_texture_multisample :: device where
  "device_no_texture_multisample = device_ok\<lparr>GLEW_ARB_texture_multisample := False\<rparr>"

definition mode_bits0 :: mode_bits where
  "mode_bits0 =
     \<lparr>GPU_OFFSCREEN_RENDERBUFFER_COLOR = 1, GPU_OFFSCREEN_RENDERBUFFER_DEPTH = 2,
      GPU_OFFSCREEN_DEPTH_COMPARE = 4\<rparr>"

text \<open>The scene after texture 10 was attached to slot 0 of framebuffer 1, with
  framebuffer 2 (handle 12) the one currently bound.\<close>

definition scene_attached_bound :: gpu_state where
  "scene_attached_bound = scene_attached\<lparr>currentfb := 12\<rparr>"

section \<open>Notions used in the statements\<close>

text \<open>The array after \<^verbatim>\<open>a[i] = v\<close>, for an index in range.\<close>

definition slot_put :: "'a slots \<Rightarrow> int \<Rightarrow> 'a \<Rightarrow> 'a slots" where
  "slot_put a i v = (case slot_set a i v of Inr c \<Rightarrow> c | Inl e \<Rightarrow> a)"

text \<open>The indices of the occupied slots of an array of pointers, in ascending order.\<close>

definition occupied :: "'a option slots \<Rightarrow> int list" where
  "occupied ct = filter (\<lambda>i. slot_get ct i \<noteq> Inr None) [0, 1, 2, 3]"

definition color_attachment :: "int \<Rightarrow> GLenum" where
  "color_attachment i = GL_COLOR_ATTACHMENT0 + word_of_int i"

text \<open>The texture whose size \<^verbatim>\<open>GPU_framebuffer_bind\<close> gives the viewport: the one in the
  occupied color slot of highest index, or the depth texture when no color slot is
  occupied.\<close>

definition viewport_tex :: "GPUFrameBuffer \<Rightarrow> nat option" where
  "viewport_tex f =
     (if occupied (colortex f) = [] then depthtex f
      else (case slot_get (colortex f) (last (occupied (colortex f))) of
              Inr e \<Rightarrow> e | Inl x \<Rightarrow> None))"

text \<open>
  Forward and backward references agree on framebuffer \<open>a\<close>: every occupied slot holds a
  live surface whose back-reference names \<open>a\<close> and, for a color slot, that slot's index;
  a color slot holds a color surface and the depth slot a depth surface.
\<close>

definition tex_slot_ok :: "gpu_state \<Rightarrow> nat \<Rightarrow> int \<Rightarrow> bool" where
  "tex_slot_ok s a i =
     (case fbs s a of
        None \<Rightarrow> False
      | Some f \<Rightarrow>
          (case slot_get (colortex f) i of
             Inl e \<Rightarrow> False
           | Inr None \<Rightarrow> True
           | Inr (Some t) \<Rightarrow>
               (case texs s t of
                  None \<Rightarrow> False
                | Some tx \<Rightarrow> tex_fb tx = Some a \<and> tex_fb_attachment tx = i \<and> \<not> tex_depth tx)))"

definition depthtex_ok :: "gpu_state \<Rightarrow> nat \<Rightarrow> bool" where
  "depthtex_ok s a =
     (case fbs s a of
        None \<Rightarrow> False
      | Some f \<Rightarrow>
          (case depthtex f of
             None \<Rightarrow> True
           | Some t \<Rightarrow>
               (case texs s t of
                  None \<Rightarrow> False
                | Some tx \<Rightarrow> tex_fb tx = Some a \<and> tex_depth tx)))"

definition rb_slot_ok :: "gpu_state \<Rightarrow> nat \<Rightarrow> int \<Rightarrow> bool" where
  "rb_slot_ok s a i =
     (case fbs s a of
        None \<Rightarrow> False
      | Some f \<Rightarrow>
          (case slot_get (colorrb f) i of
             Inl e \<Rightarrow> False
           | Inr None \<Rightarrow> True
           | Inr (Some r) \<Rightarrow>
               (case rbs s r of
                  None \<Rightarrow> False
                | Some rx \<Rightarrow> rb_fb rx = Some a \<and> rb_fb_attachment rx = i \<and> \<not> rb_depth rx)))"

definition depthrb_ok :: "gpu_state \<Rightarrow> nat \<Rightarrow> bool" where
  "depthrb_ok s a =
     (case fbs s a of
        None \<Rightarrow> False
      | Some f \<Rightarrow>
          (case depthrb f of
             None \<Rightarrow> True
           | Some r \<Rightarrow>
               (case rbs s r of
                  None \<Rightarrow> False
                | Some rx \<Rightarrow> rb_fb rx = Some a \<and> rb_depth rx)))"

definition attachments_agree :: "gpu_state \<Rightarrow> nat \<Rightarrow> bool" where
  "attachments_agree s a =
     (depthtex_ok s a \<and> list_all (tex_slot_ok s a) [0, 1, 2, 3] \<and>
      depthrb_ok s a \<and> list_all (rb_slot_ok s a) [0, 1, 2, 3])"

text \<open>The back-reference of a live texture (renderbuffer) is empty.\<close>

definition tex_free :: "gpu_state \<Rightarrow> nat \<Rightarrow> bool" where
  "tex_free s t = (case texs s t of None \<Rightarrow> False | Some tx \<Rightarrow> tex_fb tx = None)"

definition rb_free :: "gpu_state \<Rightarrow> nat \<Rightarrow> bool" where
  "rb_free s r = (case rbs s r of None \<Rightarrow> False | Some rx \<Rightarrow> rb_fb rx = None)"

fun slot_list :: "'a slots \<Rightarrow> 'a list" where
  "slot_list (Slots a b c d) = [a, b, c, d]"

text \<open>Some texture or renderbuffer slot of the framebuffer is occupied.\<close>

definition has_attachment :: "GPUFrameBuffer \<Rightarrow> bool" where
  "has_attachment f =
     list_ex (\<lambda>x. x \<noteq> None)
       (depthtex f # slot_list (colortex f) @ depthrb f # slot_list (colorrb f))"

section \<open>Basic facts\<close>

lemma bindE_simps [simp]: "bindE (Inl e) f = Inl e" "bindE (Inr x) f = f x"
  by (simp_all add: bindE_def)

lemma gl_heap [simp]:
  "fbs (gl c s) = fbs s" "texs (gl c s) = texs s" "rbs (gl c s) = rbs s" "ofss (gl c s) = ofss s"
  "currentfb (gl c s) = currentfb s" "next_addr (gl c s) = next_addr s"
  "gl_log (gl c s) = gl_log s @ [c]"
  by (simp_all add: gl_def)

lemmas tex_acc_defs = GPU_texture_target_def GPU_texture_opengl_bindcode_def GPU_texture_depth_def
  GPU_texture_stencil_def GPU_texture_width_def GPU_texture_height_def GPU_texture_framebuffer_def
  GPU_texture_framebuffer_attachment_def GPU_texture_framebuffer_set_def

lemmas rb_acc_defs = GPU_renderbuffer_framebuffer_def GPU_renderbuffer_framebuffer_attachment_def
  GPU_renderbuffer_framebuffer_set_def GPU_renderbuffer_bindcode_def GPU_renderbuffer_depth_def
  GPU_renderbuffer_width_def GPU_renderbuffer_height_def

lemma fb_deref_simps [simp]:
  "fb_deref s None = Inl NullDeref"
  "fbs s a = Some f \<Longrightarrow> fb_deref s (Some a) = Inr f"
  "fbs s a = None \<Longrightarrow> fb_deref s (Some a) = Inl Dangling"
  by (simp_all add: fb_deref_def)

lemma tex_deref_simps [simp]:
  "tex_deref s None = Inl NullDeref"
  "texs s a = Some t \<Longrightarrow> tex_deref s (Some a) = Inr t"
  "texs s a = None \<Longrightarrow> tex_deref s (Some a) = Inl Dangling"
  by (simp_all add: tex_deref_def)

lemma rb_deref_simps [simp]:
  "rb_deref s None = Inl NullDeref"
  "rbs s a = Some r \<Longrightarrow> rb_deref s (Some a) = Inr r"
  "rbs s a = None \<Longrightarrow> rb_deref s (Some a) = Inl Dangling"
  by (simp_all add: rb_deref_def)

lemma ofs_deref_simps [simp]:
  "ofs_deref s None = Inl NullDeref"
  "ofss s a = Some r \<Longrightarrow> ofs_deref s (Some a) = Inr r"
  "ofss s a = None \<Longrightarrow> ofs_deref s (Some a) = Inl Dangling"
  by (simp_all add: ofs_deref_def)

section \<open>Attach and detach\<close>

text \<open>
  C6. A slot index of \<^verbatim>\<open>GPU_FB_MAX_SLOTS\<close> (4) or more makes the texture attach return
  false and the renderbuffer attach return 0, and the whole program state, so the
  target's slots and the surface's back-reference, is as before.
\<close>

theorem attach_slot_out_of_range:
  "GPU_FB_MAX_SLOTS \<le> slot \<Longrightarrow>
   GPU_framebuffer_texture_attach_target s fb tex target slot mip = Inr (False, s) \<and>
   GPU_framebuffer_renderbuffer_attach glerror s fb rb slot = Inr (0, s)"
  by (simp add: GPU_framebuffer_texture_attach_target_def GPU_framebuffer_renderbuffer_attach_def)

theorem attach_slot_out_of_range_witness:
  "GPU_FB_MAX_SLOTS \<le> 4 \<and>
   GPU_framebuffer_texture_attach_target scene (Some 1) (Some 10) GL_TEXTURE_2D 4 0
     = Inr (False, scene) \<and>
   GPU_framebuffer_renderbuffer_attach GL_NO_ERROR scene (Some 1) (Some 20) 4 = Inr (0, scene)"
  using attach_slot_out_of_range
          [of 4 scene "Some 1" "Some 10" GL_TEXTURE_2D 0 GL_NO_ERROR "Some 20"]
  by (simp add: GPU_FB_MAX_SLOTS_def)

text \<open>
  C7. Round trip. Let texture \<open>b\<close> be attached to no framebuffer, and let the slot it
  goes to on framebuffer \<open>a\<close> be empty (the color slot \<open>slot\<close>, or the depth slot for a
  depth texture), with \<open>0 \<le> slot < 4\<close>. Then the attach succeeds, the detach after it
  succeeds, every framebuffer is as it was before the attach, and the back-reference of
  the texture is empty again (no framebuffer, index -1).
\<close>

theorem attach_detach_round_trip:
  assumes "fbs s a = Some f" and "texs s b = Some t" and "tex_fb t = None"
    and "0 \<le> slot" and "slot < GPU_FB_MAX_SLOTS"
    and "if tex_depth t then depthtex f = None else slot_get (colortex f) slot = Inr None"
  shows "\<exists>s1 s2.
       GPU_framebuffer_texture_attach_target s (Some a) (Some b) tg slot mip = Inr (True, s1)
     \<and> GPU_framebuffer_texture_detach_target s1 (Some b) tg' = Inr s2
     \<and> fbs s2 = fbs s
     \<and> texs s2 = (texs s)(b \<mapsto> t\<lparr>tex_fb := None, tex_fb_attachment := - 1\<rparr>)"
proof (cases "colortex f")
  case (Slots c0 c1 c2 c3)
  with assms show ?thesis
    apply (simp add: GPU_framebuffer_texture_attach_target_def
        GPU_framebuffer_texture_detach_target_def tex_acc_defs Let_def GPU_FB_MAX_SLOTS_def)
    apply (auto simp: fun_upd_idem split: if_splits)
    done
qed

theorem attach_detach_round_trip_witness:
  "\<exists>s1 s2.
       GPU_framebuffer_texture_attach_target scene (Some 1) (Some 10) GL_TEXTURE_2D 2 0
         = Inr (True, s1)
     \<and> GPU_framebuffer_texture_detach_target s1 (Some 10) GL_TEXTURE_2D = Inr s2
     \<and> fbs s2 = fbs scene
     \<and> texs s2 = (texs scene)(10 \<mapsto> color_texture 64 64 21)"
  using attach_detach_round_trip
          [of scene 1 "calloc_GPUFrameBuffer\<lparr>object := 11\<rparr>" 10 "color_texture 64 64 21" 2
              GL_TEXTURE_2D 0 GL_TEXTURE_2D]
  by (simp add: scene_def calloc_GPUFrameBuffer_def color_texture_def GPU_FB_MAX_SLOTS_def)

text \<open>
  C10. For a depth (or depth-stencil) texture \<open>b\<close> and any slot argument below 4, also a
  negative one, the attach stores \<open>b\<close> in the depth slot of the framebuffer and changes
  no other field of it (the four color slots are as before), and the back-reference of
  \<open>b\<close> records the slot argument as its index. The detach after it succeeds whatever
  that index is, and clears the depth slot only.
\<close>

theorem depth_attach_ignores_slot:
  assumes "fbs s a = Some f" and "texs s b = Some t" and "tex_depth t"
    and "slot < GPU_FB_MAX_SLOTS"
  shows "\<exists>s1 s2.
       GPU_framebuffer_texture_attach_target s (Some a) (Some b) tg slot mip = Inr (True, s1)
     \<and> fbs s1 = (fbs s)(a \<mapsto> f\<lparr>depthtex := Some b\<rparr>)
     \<and> texs s1 = (texs s)(b \<mapsto> t\<lparr>tex_fb := Some a, tex_fb_attachment := slot\<rparr>)
     \<and> GPU_framebuffer_texture_detach_target s1 (Some b) tg' = Inr s2
     \<and> fbs s2 = (fbs s)(a \<mapsto> f\<lparr>depthtex := None\<rparr>)
     \<and> texs s2 = (texs s)(b \<mapsto> t\<lparr>tex_fb := None, tex_fb_attachment := - 1\<rparr>)"
  using assms
  by (simp add: GPU_framebuffer_texture_attach_target_def
      GPU_framebuffer_texture_detach_target_def tex_acc_defs Let_def GPU_FB_MAX_SLOTS_def)

theorem depth_attach_ignores_slot_witness:
  "\<exists>s1 s2.
       GPU_framebuffer_texture_attach_target scene (Some 1) (Some 12) GL_TEXTURE_2D (- 7) 0
         = Inr (True, s1)
     \<and> fbs s1 = (fbs scene)(1 \<mapsto> calloc_GPUFrameBuffer\<lparr>object := 11, depthtex := Some 12\<rparr>)
     \<and> texs s1 = (texs scene)
         (12 \<mapsto> (depth_texture 64 64 23)\<lparr>tex_fb := Some 1, tex_fb_attachment := - 7\<rparr>)
     \<and> GPU_framebuffer_texture_detach_target s1 (Some 12) GL_TEXTURE_2D = Inr s2
     \<and> fbs s2 = (fbs scene)(1 \<mapsto> calloc_GPUFrameBuffer\<lparr>object := 11, depthtex := None\<rparr>)
     \<and> texs s2 = (texs scene)(12 \<mapsto> depth_texture 64 64 23)"
  using depth_attach_ignores_slot
          [of scene 1 "calloc_GPUFrameBuffer\<lparr>object := 11\<rparr>" 12 "depth_texture 64 64 23" "- 7"
              GL_TEXTURE_2D 0 GL_TEXTURE_2D]
  by (simp add: scene_def calloc_GPUFrameBuffer_def depth_texture_def GPU_FB_MAX_SLOTS_def)

lemma slot_set_put: "0 \<le> i \<Longrightarrow> i < 4 \<Longrightarrow> slot_set a i v = Inr (slot_put a i v)"
  by (cases a) (auto simp: slot_put_def)

text \<open>
  C1, as the code has it. Let texture \<open>b\<close> be attached to framebuffer \<open>a1\<close> (its
  back-reference names \<open>a1\<close>, and the slot of \<open>a1\<close> it names holds \<open>b\<close>). Attaching
  \<open>b\<close> to another framebuffer \<open>a2\<close> at \<open>slot2\<close>, \<open>0 \<le> slot2 < 4\<close>, succeeds, sets the
  back-reference of \<open>b\<close> to (\<open>a2\<close>, \<open>slot2\<close>) and stores \<open>b\<close> in the slot of \<open>a2\<close>
  (the depth slot for a depth texture). Nothing else changes: framebuffer \<open>a1\<close> is as
  before, so its former slot still holds \<open>b\<close>.
\<close>

theorem reattach_keeps_old_slot:
  assumes "fbs s a1 = Some f1" and "fbs s a2 = Some f2" and "a1 \<noteq> a2"
    and "texs s b = Some t" and "tex_fb t = Some a1"
    and "if tex_depth t then depthtex f1 = Some b
         else slot_get (colortex f1) (tex_fb_attachment t) = Inr (Some b)"
    and "0 \<le> slot2" and "slot2 < GPU_FB_MAX_SLOTS"
  shows "\<exists>s'.
       GPU_framebuffer_texture_attach_target s (Some a2) (Some b) tg slot2 mip = Inr (True, s')
     \<and> texs s' = (texs s)(b \<mapsto> t\<lparr>tex_fb := Some a2, tex_fb_attachment := slot2\<rparr>)
     \<and> fbs s' = (fbs s)
          (a2 \<mapsto> (if tex_depth t then f2\<lparr>depthtex := Some b\<rparr>
                  else f2\<lparr>colortex := slot_put (colortex f2) slot2 (Some b)\<rparr>))
     \<and> fbs s' a1 = Some f1"
  using assms slot_set_put [of slot2 "colortex f2" "Some b"]
  by (simp add: GPU_framebuffer_texture_attach_target_def tex_acc_defs Let_def
      GPU_FB_MAX_SLOTS_def)

theorem reattach_keeps_old_slot_witness:
  "\<exists>s'.
       GPU_framebuffer_texture_attach_target scene_attached (Some 2) (Some 10) GL_TEXTURE_2D 1 0
         = Inr (True, s')
     \<and> texs s' = (texs scene_attached)
          (10 \<mapsto> (color_texture 64 64 21)\<lparr>tex_fb := Some 2, tex_fb_attachment := 1\<rparr>)
     \<and> fbs s' = (fbs scene_attached)
          (2 \<mapsto> calloc_GPUFrameBuffer\<lparr>object := 12, colortex := Slots None (Some 10) None None\<rparr>)
     \<and> fbs s' 1 = Some (calloc_GPUFrameBuffer\<lparr>object := 11,
                                               colortex := Slots (Some 10) None None None\<rparr>)"
  using reattach_keeps_old_slot
          [of scene_attached 1
              "calloc_GPUFrameBuffer\<lparr>object := 11, colortex := Slots (Some 10) None None None\<rparr>"
              2 "calloc_GPUFrameBuffer\<lparr>object := 12\<rparr>" 10
              "(color_texture 64 64 21)\<lparr>tex_fb := Some 1, tex_fb_attachment := 0\<rparr>" 1
              GL_TEXTURE_2D 0]
  by (simp add: scene_attached_def scene_def calloc_GPUFrameBuffer_def color_texture_def
      GPU_FB_MAX_SLOTS_def slot_put_def)

text \<open>
  C1 as stated fails: texture 10 sits in slot 0 of framebuffer 1; after it is attached
  to slot 1 of framebuffer 2 its back-reference is (2, 1), and slot 0 of framebuffer 1
  still holds it, as slot 1 of framebuffer 2 does.
\<close>

theorem reattach_counterexample:
  "(case GPU_framebuffer_texture_attach_target scene_attached (Some 2) (Some 10)
           GL_TEXTURE_2D 1 0 of
      Inl e \<Rightarrow> False
    | Inr (ok, s') \<Rightarrow>
        ok \<and> map_option tex_fb (texs s' 10) = Some (Some 2)
           \<and> map_option tex_fb_attachment (texs s' 10) = Some 1
           \<and> map_option colortex (fbs s' 1) = Some (Slots (Some 10) None None None)
           \<and> map_option colortex (fbs s' 2) = Some (Slots None (Some 10) None None))"
  by (simp add: GPU_framebuffer_texture_attach_target_def tex_acc_defs Let_def
      GPU_FB_MAX_SLOTS_def scene_attached_def scene_def calloc_GPUFrameBuffer_def
      color_texture_def)

section \<open>Binding\<close>

text \<open>The loop of \<^verbatim>\<open>GPU_framebuffer_bind\<close> in closed form.\<close>

lemma bind_loop:
  "for_loop (bind_body ct) [0, 1, 2, 3] ([], 0, None) =
     Inr (map color_attachment (occupied ct),
          (if occupied ct = [] then 0 else color_attachment (hd (occupied ct))),
          (if occupied ct = [] then None
           else Some (case slot_get ct (last (occupied ct)) of Inr e \<Rightarrow> e | Inl x \<Rightarrow> None)))"
proof (cases ct)
  case (Slots c0 c1 c2 c3)
  then show ?thesis
    by (simp add: bind_body_def occupied_def color_attachment_def GL_COLOR_ATTACHMENT0_def)
qed

text \<open>
  C3, as the code has it. For a framebuffer with a color texture in some slot, or with a
  depth texture, \<^verbatim>\<open>GPU_framebuffer_bind\<close> issues exactly four device calls: it binds the
  framebuffer; it sets the draw buffers to the occupied color-texture slots in ascending
  order (to none when there is no color texture); it sets the read buffer to the first
  occupied slot (to none when there is no color texture); and it sets the viewport to
  the size of the texture in the occupied slot of highest index (of the depth texture
  when there is no color texture). It records the framebuffer in \<^verbatim>\<open>GG.currentfb\<close> and
  changes nothing else.
\<close>

theorem bind_all_color:
  assumes "fbs s a = Some f"
    and "occupied (colortex f) \<noteq> [] \<or> depthtex f \<noteq> None"
    and "viewport_tex f = Some b" and "texs s b = Some t"
  shows "GPU_framebuffer_bind s (Some a) =
     Inr (s\<lparr>currentfb := object f,
            gl_log := gl_log s @
              [BindFramebuffer GL_FRAMEBUFFER (object f),
               (if occupied (colortex f) = [] then DrawBuffer GL_NONE
                else DrawBuffers (map color_attachment (occupied (colortex f)))),
               ReadBuffer (if occupied (colortex f) = [] then GL_NONE
                           else color_attachment (hd (occupied (colortex f)))),
               Viewport 0 0 (tex_w t) (tex_h t)]\<rparr>)"
  using assms
  by (auto simp add: GPU_framebuffer_bind_def bind_loop Let_def read_local_def viewport_tex_def
      tex_acc_defs gl_def simp del: for_loop.simps)

theorem bind_all_color_witness:
  "GPU_framebuffer_bind scene_two_colors (Some 1) =
     Inr (scene_two_colors\<lparr>currentfb := 11,
            gl_log := [BindFramebuffer GL_FRAMEBUFFER 11,
               DrawBuffers [color_attachment 0, color_attachment 1],
               ReadBuffer (color_attachment 0),
               Viewport 0 0 128 128]\<rparr>)"
  using bind_all_color [of scene_two_colors 1
       "calloc_GPUFrameBuffer\<lparr>object := 11, colortex := Slots (Some 10) (Some 11) None None\<rparr>"
       11 "(color_texture 128 128 22)\<lparr>tex_fb := Some 1, tex_fb_attachment := 1\<rparr>"]
  by (simp add: scene_two_colors_def scene_def calloc_GPUFrameBuffer_def color_texture_def
      occupied_def viewport_tex_def)

text \<open>
  C3 as stated fails: with the 64 x 64 texture 10 in slot 0 and the 128 x 128 texture 11
  in slot 1, the viewport is set to 128 x 128, the size of the last occupied slot, not
  of the first.
\<close>

theorem bind_viewport_counterexample:
  "(case GPU_framebuffer_bind scene_two_colors (Some 1) of
      Inl e \<Rightarrow> False
    | Inr s' \<Rightarrow>
        map_option tex_w (texs s' 10) = Some 64 \<and> map_option tex_h (texs s' 10) = Some 64 \<and>
        gl_log s' = [BindFramebuffer GL_FRAMEBUFFER 11,
               DrawBuffers [GL_COLOR_ATTACHMENT0 + 0, GL_COLOR_ATTACHMENT0 + 1],
               ReadBuffer (GL_COLOR_ATTACHMENT0 + 0),
               Viewport 0 0 128 128])"
  by (simp add: GPU_framebuffer_bind_def bind_body_def Let_def read_local_def tex_acc_defs
      scene_two_colors_def scene_def calloc_GPUFrameBuffer_def color_texture_def
      GL_COLOR_ATTACHMENT0_def)

text \<open>
  C9. The local \<^verbatim>\<open>tex\<close> of \<^verbatim>\<open>GPU_framebuffer_bind\<close> is assigned in the loop when a color
  slot holds a texture, and from \<^verbatim>\<open>fb->depthtex\<close> otherwise, so it is never read
  unassigned. With no color texture and no depth texture it is NULL, and the read of its
  width dereferences NULL. So a bind that returns had a color texture or a depth
  texture attached.
\<close>

theorem bind_needs_texture:
  assumes "fbs s a = Some f"
  shows "(occupied (colortex f) = [] \<and> depthtex f = None \<longrightarrow>
            GPU_framebuffer_bind s (Some a) = Inl NullDeref) \<and>
         ((\<exists>s'. GPU_framebuffer_bind s (Some a) = Inr s') \<longrightarrow>
            occupied (colortex f) \<noteq> [] \<or> depthtex f \<noteq> None) \<and>
         GPU_framebuffer_bind s (Some a) \<noteq> Inl Uninitialised"
proof -
  have none: "GPU_framebuffer_bind s (Some a) = Inl NullDeref"
    if "occupied (colortex f) = []" and "depthtex f = None"
    using assms that
    by (simp add: GPU_framebuffer_bind_def bind_loop Let_def read_local_def tex_acc_defs
        del: for_loop.simps)
  have init: "GPU_framebuffer_bind s (Some a) \<noteq> Inl Uninitialised"
    using assms
    by (auto simp add: GPU_framebuffer_bind_def bind_loop Let_def read_local_def tex_acc_defs
        bindE_def tex_deref_def simp del: for_loop.simps split: sum.splits option.splits)
  from none init show ?thesis
    by (cases "occupied (colortex f) = []"; cases "depthtex f") auto
qed

theorem bind_needs_texture_witness:
  "GPU_framebuffer_bind scene (Some 2) = Inl NullDeref \<and>
   GPU_framebuffer_bind scene_renderbuffers (Some 1) = Inl NullDeref"
  using bind_needs_texture [of scene 2 "calloc_GPUFrameBuffer\<lparr>object := 12\<rparr>"]
    bind_needs_texture [of scene_renderbuffers 1 "calloc_GPUFrameBuffer\<lparr>object := 11,
                       colorrb := Slots (Some 20) None None None, depthrb := Some 21\<rparr>"]
  by (simp add: scene_def scene_renderbuffers_def calloc_GPUFrameBuffer_def occupied_def)

section \<open>Offscreen blit\<close>

declare excess_bits.simps [simp del]

lemma deref_gl [simp]:
  "fb_deref (gl c s) p = fb_deref s p" "tex_deref (gl c s) p = tex_deref s p"
  "rb_deref (gl c s) p = rb_deref s p" "ofs_deref (gl c s) p = ofs_deref s p"
  by (simp_all add: fb_deref_def tex_deref_def rb_deref_def ofs_deref_def split: option.splits)

lemma offscreen_size_gl [simp]:
  "GPU_offscreen_width (gl c s) p = GPU_offscreen_width s p"
  "GPU_offscreen_height (gl c s) p = GPU_offscreen_height s p"
  by (auto simp add: GPU_offscreen_width_def GPU_offscreen_height_def tex_acc_defs rb_acc_defs
      bindE_def split: sum.splits)

text \<open>An \<^verbatim>\<open>int\<close> of magnitude up to \<open>2 ^ 24\<close> is a binary32 number: the conversion to float
  and back is exact.\<close>

lemma float_from_int_exact: "\<bar>n\<bar> \<le> 2 ^ 24 \<Longrightarrow> float_from_int n = n"
proof -
  assume b: "\<bar>n\<bar> \<le> 2 ^ 24"
  show ?thesis
  proof (cases "\<bar>n\<bar> < 2 ^ 24")
    case True
    then have "excess_bits (nat \<bar>n\<bar>) = 0"
      by (subst excess_bits.simps) simp
    then show ?thesis
      by (simp add: float_from_int_def Let_def mult_sgn_abs)
  next
    case False
    with b have e: "\<bar>n\<bar> = 2 ^ 24" by simp
    then have n: "nat \<bar>n\<bar> = 2 ^ 24" by simp
    have "excess_bits 16777216 = Suc (excess_bits 8388608)"
      by (subst excess_bits.simps) simp
    also have "excess_bits 8388608 = 0"
      by (subst excess_bits.simps) simp
    finally have x: "excess_bits 16777216 = 1" by simp
    have "sgn n * 2 ^ 24 = n"
      using e mult_sgn_abs [of n] by simp
    then show ?thesis
      by (simp add: float_from_int_def Let_def n x)
  qed
qed

lemma min_ff_exact:
  "\<bar>x\<bar> \<le> 2 ^ 24 \<Longrightarrow> \<bar>y\<bar> \<le> 2 ^ 24 \<Longrightarrow>
   int_from_float (min_ff (float_from_int x) (float_from_int y)) = Inr (min x y)"
  by (auto simp add: float_from_int_exact min_ff_def int_from_float_def min_def)

text \<open>
  C5. With \<^verbatim>\<open>color\<close> and \<^verbatim>\<open>depth\<close> both false the blit fails on its assertion, before
  any device call: no copy is made. With at least one of them true, for two offscreen
  contexts whose widths and heights are float-representable (magnitude up to \<open>2 ^ 24\<close>),
  it issues one blit of the rectangle from (0, 0) to (the smaller width, the smaller
  height), the same on both sides, with the color bit and the depth bit as requested, and
  then binds the framebuffer of the destination, which is the one recorded in
  \<^verbatim>\<open>GG.currentfb\<close> afterwards.
\<close>

theorem offscreen_blit:
  assumes "ofss s src = Some so" and "ofs_fb so = Some sa" and "fbs s sa = Some sf"
    and "ofss s dst = Some dso" and "ofs_fb dso = Some da" and "fbs s da = Some df"
    and "GPU_offscreen_width s (Some src) = Inr sw"
    and "GPU_offscreen_height s (Some src) = Inr sh"
    and "GPU_offscreen_width s (Some dst) = Inr dw"
    and "GPU_offscreen_height s (Some dst) = Inr dh"
    and "\<bar>sw\<bar> \<le> 2 ^ 24" and "\<bar>sh\<bar> \<le> 2 ^ 24" and "\<bar>dw\<bar> \<le> 2 ^ 24" and "\<bar>dh\<bar> \<le> 2 ^ 24"
  shows "GPU_offscreen_blit s p q False False = Inl AssertFailed \<and>
    (color \<or> depth \<longrightarrow>
     GPU_offscreen_blit s (Some src) (Some dst) color depth =
       Inr (s\<lparr>currentfb := object df,
              gl_log := gl_log s @
                [BindFramebuffer GL_READ_FRAMEBUFFER (object sf),
                 BindFramebuffer GL_DRAW_FRAMEBUFFER (object df),
                 DrawBuffer GL_COLOR_ATTACHMENT0,
                 ReadBuffer GL_COLOR_ATTACHMENT0,
                 BlitFramebuffer 0 0 (min sw dw) (min sh dh) 0 0 (min sw dw) (min sh dh)
                   ((if color then GL_COLOR_BUFFER_BIT else 0) OR
                    (if depth then GL_DEPTH_BUFFER_BIT else 0)) GL_NEAREST,
                 BindFramebuffer GL_FRAMEBUFFER (object df),
                 DrawBuffer GL_COLOR_ATTACHMENT0,
                 ReadBuffer GL_COLOR_ATTACHMENT0]\<rparr>))"
proof -
  have 1: "GPU_offscreen_blit s p q False False = Inl AssertFailed"
    by (simp add: GPU_offscreen_blit_def)
  have 2: "GPU_offscreen_blit s (Some src) (Some dst) color depth =
       Inr (s\<lparr>currentfb := object df,
              gl_log := gl_log s @
                [BindFramebuffer GL_READ_FRAMEBUFFER (object sf),
                 BindFramebuffer GL_DRAW_FRAMEBUFFER (object df),
                 DrawBuffer GL_COLOR_ATTACHMENT0,
                 ReadBuffer GL_COLOR_ATTACHMENT0,
                 BlitFramebuffer 0 0 (min sw dw) (min sh dh) 0 0 (min sw dw) (min sh dh)
                   ((if color then GL_COLOR_BUFFER_BIT else 0) OR
                    (if depth then GL_DEPTH_BUFFER_BIT else 0)) GL_NEAREST,
                 BindFramebuffer GL_FRAMEBUFFER (object df),
                 DrawBuffer GL_COLOR_ATTACHMENT0,
                 ReadBuffer GL_COLOR_ATTACHMENT0]\<rparr>)" if "color \<or> depth"
    using that assms
    by (simp add: GPU_offscreen_blit_def Let_def min_ff_exact GPU_framebuffer_bind_simple_def)
  from 1 2 show ?thesis by blast
qed

theorem offscreen_blit_witness:
  "GPU_offscreen_blit scene_offscreens (Some 40) (Some 41) False False = Inl AssertFailed \<and>
   GPU_offscreen_blit scene_offscreens (Some 40) (Some 41) True False =
     Inr (scene_offscreens\<lparr>currentfb := 12,
            gl_log := [BindFramebuffer GL_READ_FRAMEBUFFER 11,
                 BindFramebuffer GL_DRAW_FRAMEBUFFER 12,
                 DrawBuffer GL_COLOR_ATTACHMENT0,
                 ReadBuffer GL_COLOR_ATTACHMENT0,
                 BlitFramebuffer 0 0 64 64 0 0 64 64 GL_COLOR_BUFFER_BIT GL_NEAREST,
                 BindFramebuffer GL_FRAMEBUFFER 12,
                 DrawBuffer GL_COLOR_ATTACHMENT0,
                 ReadBuffer GL_COLOR_ATTACHMENT0]\<rparr>)"
  using offscreen_blit [of scene_offscreens 40
      "calloc_GPUOffScreen\<lparr>ofs_fb := Some 1, ofs_color := Some 11\<rparr>" 1
      "calloc_GPUFrameBuffer\<lparr>object := 11\<rparr>" 41
      "calloc_GPUOffScreen\<lparr>ofs_fb := Some 2, ofs_rbcolor := Some 20\<rparr>" 2
      "calloc_GPUFrameBuffer\<lparr>object := 12\<rparr>" 128 128 64 64 "Some 40" "Some 41" True False]
  by (simp add: scene_offscreens_def scene_def calloc_GPUOffScreen_def calloc_GPUFrameBuffer_def
      calloc_GPURenderBuffer_def color_texture_def GPU_offscreen_width_def
      GPU_offscreen_height_def tex_acc_defs rb_acc_defs)

section \<open>Offscreen creation\<close>

lemma restore_frame [simp]:
  "fbs (GPU_framebuffer_restore s) = fbs s" "texs (GPU_framebuffer_restore s) = texs s"
  "rbs (GPU_framebuffer_restore s) = rbs s" "ofss (GPU_framebuffer_restore s) = ofss s"
  "currentfb (GPU_framebuffer_restore s) = 0"
  by (simp_all add: GPU_framebuffer_restore_def)

lemma rb_create_ofss:
  "GPU_renderbuffer_create name s w h sm dt ty = Inr (r, s') \<Longrightarrow> ofss s' = ofss s"
  by (auto simp add: GPU_renderbuffer_create_def GPU_renderbuffer_free_def Let_def
      split: if_splits GPUTextureFormat.splits)

lemma rb_attach_ofss:
  "GPU_framebuffer_renderbuffer_attach e s fb rb slot = Inr (r, s') \<Longrightarrow> ofss s' = ofss s"
  by (auto simp add: GPU_framebuffer_renderbuffer_attach_def rb_acc_defs Let_def bindE_def
      split: if_splits sum.splits)

lemma tex_attach_ofss:
  "GPU_framebuffer_texture_attach s fb tex slot mip = Inr (r, s') \<Longrightarrow> ofss s' = ofss s"
  by (auto simp add: GPU_framebuffer_texture_attach_def GPU_framebuffer_texture_attach_target_def
      tex_acc_defs Let_def bindE_def split: if_splits sum.splits)

lemma tex_create_ofss: "GPU_texture_create made s = (r, s') \<Longrightarrow> ofss s' = ofss s"
  by (auto simp add: GPU_texture_create_def split: option.splits)

lemma check_valid_ofss:
  "GPU_framebuffer_check_valid st s fb = Inr (r, s') \<Longrightarrow> ofss s' = ofss s"
  by (auto simp add: GPU_framebuffer_check_valid_def Let_def bindE_def split: if_splits sum.splits)

lemma offscreen_fail_None: "offscreen_fail s ofs \<noteq> Inr (Some x, s')"
  by (auto simp add: offscreen_fail_def bindE_def split: sum.splits)

lemma ofs_store_simps [simp]:
  "ofss (ofs_store s ofs v) = (ofss s)(ofs \<mapsto> v)" "fbs (ofs_store s ofs v) = fbs s"
  "texs (ofs_store s ofs v) = texs s" "rbs (ofs_store s ofs v) = rbs s"
  "next_addr (ofs_store s ofs v) = next_addr s" "currentfb (ofs_store s ofs v) = currentfb s"
  "gl_log (ofs_store s ofs v) = gl_log s"
  by (simp_all add: ofs_store_def)

lemma create_color_samples:
  assumes "offscreen_create_color dev bits s ofs w h sm dt mode = Inr (Some x, s')"
    and "ofss s ofs = Some os"
  shows "\<exists>os'. ofss s' ofs = Some os' \<and> ofs_samples os' = ofs_samples os \<and> ofs_fb os' = ofs_fb os
     \<and> ofs_depth os' = ofs_depth os \<and> ofs_rbdepth os' = ofs_rbdepth os
     \<and> (mode AND GPU_OFFSCREEN_RENDERBUFFER_COLOR bits \<noteq> 0 \<longrightarrow> ofs_color os' = ofs_color os)"
  using assms
  apply (simp add: offscreen_create_color_def Let_def split: if_splits)
   apply (auto simp add: bindE_def offscreen_fail_None split: sum.splits prod.splits if_splits
      dest!: rb_create_ofss rb_attach_ofss tex_attach_ofss tex_create_ofss)
  done


lemma create_depth_samples:
  assumes "offscreen_create_depth dev bits s ofs w h sm dt mode = Inr (Some x, s')"
    and "ofss s ofs = Some os"
  shows "\<exists>os'. ofss s' ofs = Some os' \<and> ofs_samples os' = ofs_samples os \<and> ofs_fb os' = ofs_fb os"
  using assms
  apply (simp add: offscreen_create_depth_def Let_def split: if_splits)
   apply (auto simp add: bindE_def offscreen_fail_None split: sum.splits prod.splits if_splits
      dest!: rb_create_ofss rb_attach_ofss tex_attach_ofss tex_create_ofss)
  done

lemma texture_attach_NULL [simp]:
  "GPU_framebuffer_texture_attach s fb None slot mip = Inl NullDeref"
  by (simp add: GPU_framebuffer_texture_attach_def GPU_texture_target_def)

lemma create_color_texture_mode:
  assumes "mode AND GPU_OFFSCREEN_RENDERBUFFER_COLOR bits = 0"
    and "ofss s ofs = Some os" and "ofs_depth os = None"
  shows "offscreen_create_color dev bits s ofs w h sm dt mode \<noteq> Inr (Some x, s')"
  using assms
  by (auto simp add: offscreen_create_color_def Let_def offscreen_fail_None
      split: prod.splits)

lemma create_depth_texture_mode:
  assumes "mode AND GPU_OFFSCREEN_RENDERBUFFER_DEPTH bits = 0"
    and "ofss s ofs = Some os" and "ofs_color os = None"
  shows "offscreen_create_depth dev bits s ofs w h sm dt mode \<noteq> Inr (Some x, s')"
  using assms
  by (auto simp add: offscreen_create_depth_def Let_def offscreen_fail_None
      split: prod.splits)

lemma bindE_InrD: "bindE m f = Inr y \<Longrightarrow> \<exists>x. m = Inr x \<and> f x = Inr y"
  by (cases m) simp_all

text \<open>What a successful creation went through.\<close>

lemma offscreen_create_success:
  assumes "GPU_offscreen_create dev bits s w h samples dt mode = Inr (Some ofs, s')"
  shows "\<exists>fb s1 s4 s5 os s6.
      ofs = next_addr s \<and>
      GPU_framebuffer_create (glGenFramebuffers_name dev)
        (s\<lparr>next_addr := next_addr s + 1,
           ofss := (ofss s)(next_addr s \<mapsto> calloc_GPUOffScreen)\<rparr>) = Inr (Some fb, s1) \<and>
      offscreen_create_color dev bits
        (ofs_store (ofs_store s1 ofs (calloc_GPUOffScreen\<lparr>ofs_fb := Some fb\<rparr>)) ofs
           (calloc_GPUOffScreen\<lparr>ofs_fb := Some fb,
              ofs_samples := offscreen_samples dev bits samples mode\<rparr>))
        ofs w h (offscreen_samples dev bits samples mode) dt mode = Inr (Some ofs, s4) \<and>
      offscreen_create_depth dev bits s4 ofs w h (offscreen_samples dev bits samples mode) dt mode
        = Inr (Some ofs, s5) \<and>
      ofss s5 ofs = Some os \<and>
      GPU_framebuffer_check_valid (glCheckFramebufferStatus_result dev) s5 (ofs_fb os)
        = Inr (True, s6) \<and>
      s' = GPU_framebuffer_restore s6"
proof -
  let ?a = "next_addr s"
  let ?sm = "offscreen_samples dev bits samples mode"
  from assms obtain fbo s1 where
    1: "GPU_framebuffer_create (glGenFramebuffers_name dev)
        (s\<lparr>next_addr := next_addr s + 1,
           ofss := (ofss s)(next_addr s \<mapsto> calloc_GPUOffScreen)\<rparr>) = Inr (fbo, s1)"
    and 2: "(if fbo = None
             then offscreen_fail (ofs_store s1 ?a (calloc_GPUOffScreen\<lparr>ofs_fb := fbo\<rparr>)) ?a
             else bindE (offscreen_create_color dev bits
                (ofs_store (ofs_store s1 ?a (calloc_GPUOffScreen\<lparr>ofs_fb := fbo\<rparr>)) ?a
                   (calloc_GPUOffScreen\<lparr>ofs_fb := fbo, ofs_samples := ?sm\<rparr>))
                ?a w h ?sm dt mode)
              (\<lambda>(r1, s4). if r1 = None then Inr (None, s4)
                 else bindE (offscreen_create_depth dev bits s4 ?a w h ?sm dt mode)
                   (\<lambda>(r2, s5). if r2 = None then Inr (None, s5)
                      else bindE (ofs_deref s5 (Some ?a)) (\<lambda>os.
                        bindE (GPU_framebuffer_check_valid (glCheckFramebufferStatus_result dev)
                                 s5 (ofs_fb os))
                          (\<lambda>(valid, s6). if \<not> valid then offscreen_fail s6 ?a
                             else Inr (Some ?a, GPU_framebuffer_restore s6))))))
            = Inr (Some ofs, s')"
    unfolding GPU_offscreen_create_def Let_def
    by (auto dest!: bindE_InrD)
  from 2 obtain fb where fb: "fbo = Some fb"
    by (cases fbo) (simp_all add: offscreen_fail_None)
  from 2 fb obtain r1 s4 where
    3: "offscreen_create_color dev bits
                (ofs_store (ofs_store s1 ?a (calloc_GPUOffScreen\<lparr>ofs_fb := Some fb\<rparr>)) ?a
                   (calloc_GPUOffScreen\<lparr>ofs_fb := Some fb, ofs_samples := ?sm\<rparr>))
                ?a w h ?sm dt mode = Inr (r1, s4)"
    and 4: "(if r1 = None then Inr (None, s4)
                 else bindE (offscreen_create_depth dev bits s4 ?a w h ?sm dt mode)
                   (\<lambda>(r2, s5). if r2 = None then Inr (None, s5)
                      else bindE (ofs_deref s5 (Some ?a)) (\<lambda>os.
                        bindE (GPU_framebuffer_check_valid (glCheckFramebufferStatus_result dev)
                                 s5 (ofs_fb os))
                          (\<lambda>(valid, s6). if \<not> valid then offscreen_fail s6 ?a
                             else Inr (Some ?a, GPU_framebuffer_restore s6)))))
            = Inr (Some ofs, s')"
    by (auto dest!: bindE_InrD)
  from 4 obtain x1 where r1: "r1 = Some x1" by (cases r1) simp_all
  from 4 r1 obtain r2 s5 where
    5: "offscreen_create_depth dev bits s4 ?a w h ?sm dt mode = Inr (r2, s5)"
    and 6: "(if r2 = None then Inr (None, s5)
                      else bindE (ofs_deref s5 (Some ?a)) (\<lambda>os.
                        bindE (GPU_framebuffer_check_valid (glCheckFramebufferStatus_result dev)
                                 s5 (ofs_fb os))
                          (\<lambda>(valid, s6). if \<not> valid then offscreen_fail s6 ?a
                             else Inr (Some ?a, GPU_framebuffer_restore s6))))
            = Inr (Some ofs, s')"
    by (auto dest!: bindE_InrD)
  from 6 obtain x2 where r2: "r2 = Some x2" by (cases r2) simp_all
  from 6 r2 obtain os valid s6 where
    7: "ofs_deref s5 (Some ?a) = Inr os"
    and 8: "GPU_framebuffer_check_valid (glCheckFramebufferStatus_result dev) s5 (ofs_fb os)
              = Inr (valid, s6)"
    and 9: "(if \<not> valid then offscreen_fail s6 ?a
             else Inr (Some ?a, GPU_framebuffer_restore s6)) = Inr (Some ofs, s')"
    by (auto dest!: bindE_InrD)
  from 9 have v: "valid" and o: "ofs = ?a" and s': "s' = GPU_framebuffer_restore s6"
    by (auto simp add: offscreen_fail_None split: if_splits)
  have x1: "x1 = ?a"
    using 3 r1
    by (auto simp add: offscreen_create_color_def Let_def offscreen_fail_None
        dest!: bindE_InrD split: if_splits prod.splits)
  have x2: "x2 = ?a"
    using 5 r2
    by (auto simp add: offscreen_create_depth_def Let_def offscreen_fail_None
        dest!: bindE_InrD split: if_splits prod.splits)
  from 7 have os: "ofss s5 ?a = Some os"
    by (auto simp add: ofs_deref_def split: option.splits)
  show ?thesis
    using 1 fb 3 r1 x1 5 r2 x2 os 8 v o s' by auto
qed

lemmas offscreen_create_defs =
  GPU_offscreen_create_def offscreen_create_color_def offscreen_create_depth_def
  offscreen_samples_def GPU_framebuffer_create_def GPU_renderbuffer_create_def
  GPU_framebuffer_renderbuffer_attach_def GPU_framebuffer_check_valid_def
  GPU_framebuffer_restore_def GPU_texture_create_def rb_acc_defs Let_def
  calloc_GPUOffScreen_def calloc_GPUFrameBuffer_def calloc_GPURenderBuffer_def
  GPU_FB_MAX_SLOTS_def GL_NO_ERROR_def GL_INVALID_OPERATION_def GL_FRAMEBUFFER_COMPLETE_def

text \<open>With both surfaces backed by renderbuffers the creation succeeds on the device
  without blit support, and both renderbuffers are attached at slot 0.\<close>

lemma create_renderbuffer_mode:
  "\<exists>s'. GPU_offscreen_create device_no_blit mode_bits0 scene 64 64 8 GPU_RGBA8 3
           = Inr (Some 30, s')
     \<and> map_option ofs_rbcolor (ofss s' 30) = Some (Some 32)
     \<and> map_option ofs_rbdepth (ofss s' 30) = Some (Some 33)
     \<and> map_option colorrb (fbs s' 31) = Some (Slots (Some 32) None None None)
     \<and> map_option depthrb (fbs s' 31) = Some (Some 33)
     \<and> map_option rb_fb (rbs s' 32) = Some (Some 31)
     \<and> map_option rb_fb (rbs s' 33) = Some (Some 31)
     \<and> currentfb s' = 0"
  by (simp add: offscreen_create_defs device_no_blit_def device_ok_def mode_bits0_def scene_def)

text \<open>With a texture-backed surface the creation dereferences NULL, on a device where
  every allocation succeeds: mode 0 (color and depth textures), mode 1 (depth texture),
  mode 2 (color texture).\<close>

lemma create_texture_mode:
  "GPU_offscreen_create device_ok mode_bits0 scene 64 64 0 GPU_RGBA8 0 = Inl NullDeref"
  "GPU_offscreen_create device_ok mode_bits0 scene 64 64 0 GPU_RGBA8 1 = Inl NullDeref"
  "GPU_offscreen_create device_ok mode_bits0 scene 64 64 0 GPU_RGBA8 2 = Inl NullDeref"
  by (simp_all add: offscreen_create_defs device_ok_def mode_bits0_def scene_def
      color_texture_def depth_texture_def)

text \<open>
  C2. The claim asks that every surface a successful creation allocated is attached at
  slot 0. The code does not get there for a texture: the color branch attaches
  \<^verbatim>\<open>ofs->depth\<close>, which is still NULL, where it has just created \<^verbatim>\<open>ofs->color\<close>, and the
  depth branch attaches \<^verbatim>\<open>ofs->color\<close> where it has just created \<^verbatim>\<open>ofs->depth\<close>. So
  whenever the mode asks for a texture-backed color or depth surface, the creation never
  returns an object, whatever the device answers.
\<close>

theorem offscreen_create_texture_mode_fails:
  assumes "mode AND GPU_OFFSCREEN_RENDERBUFFER_COLOR bits = 0 \<or>
           mode AND GPU_OFFSCREEN_RENDERBUFFER_DEPTH bits = 0"
  shows "GPU_offscreen_create dev bits s w h samples dt mode \<noteq> Inr (Some ofs, s')"
proof
  assume ok: "GPU_offscreen_create dev bits s w h samples dt mode = Inr (Some ofs, s')"
  from offscreen_create_success [OF ok] obtain fb s1 s4 s5 where
    col: "offscreen_create_color dev bits
        (ofs_store (ofs_store s1 ofs (calloc_GPUOffScreen\<lparr>ofs_fb := Some fb\<rparr>)) ofs
           (calloc_GPUOffScreen\<lparr>ofs_fb := Some fb,
              ofs_samples := offscreen_samples dev bits samples mode\<rparr>))
        ofs w h (offscreen_samples dev bits samples mode) dt mode = Inr (Some ofs, s4)"
    and dep: "offscreen_create_depth dev bits s4 ofs w h (offscreen_samples dev bits samples mode)
        dt mode = Inr (Some ofs, s5)"
    by blast
  let ?os3 = "calloc_GPUOffScreen\<lparr>ofs_fb := Some fb,
              ofs_samples := offscreen_samples dev bits samples mode\<rparr>"
  let ?s3 = "ofs_store (ofs_store s1 ofs (calloc_GPUOffScreen\<lparr>ofs_fb := Some fb\<rparr>)) ofs ?os3"
  have s3: "ofss ?s3 ofs = Some ?os3" by simp
  have c0: "mode AND GPU_OFFSCREEN_RENDERBUFFER_COLOR bits \<noteq> 0"
    using create_color_texture_mode [OF _ s3, of mode bits] col
    by (auto simp add: calloc_GPUOffScreen_def)
  from create_color_samples [OF col s3] c0 obtain os4 where
    os4: "ofss s4 ofs = Some os4" "ofs_color os4 = None"
    by (auto simp add: calloc_GPUOffScreen_def)
  have "mode AND GPU_OFFSCREEN_RENDERBUFFER_DEPTH bits \<noteq> 0"
    using create_depth_texture_mode [OF _ os4] dep by auto
  with c0 assms show False by simp
qed


theorem offscreen_create_texture_mode_fails_witness:
  "(0 :: 32 word) AND GPU_OFFSCREEN_RENDERBUFFER_COLOR mode_bits0 = 0 \<and>
   GPU_offscreen_create device_ok mode_bits0 scene 64 64 0 GPU_RGBA8 0 \<noteq> Inr (Some 30, scene) \<and>
   GPU_offscreen_create device_ok mode_bits0 scene 64 64 0 GPU_RGBA8 0 = Inl NullDeref"
proof -
  have h: "(0 :: 32 word) AND GPU_OFFSCREEN_RENDERBUFFER_COLOR mode_bits0 = 0"
    by (simp add: mode_bits0_def)
  then have "(0 :: 32 word) AND GPU_OFFSCREEN_RENDERBUFFER_COLOR mode_bits0 = 0 \<or>
             (0 :: 32 word) AND GPU_OFFSCREEN_RENDERBUFFER_DEPTH mode_bits0 = 0"
    by simp
  from offscreen_create_texture_mode_fails [OF this, of device_ok scene 64 64 0 GPU_RGBA8 30 scene]
    h create_texture_mode(1)
  show ?thesis by simp
qed

text \<open>
  The capability test. When multisampling is requested and the device lacks the
  multisample extension, or lacks multisample textures while the color or the depth
  surface is texture-backed, or lacks the blit extension, the creation goes exactly as it
  does for \<^verbatim>\<open>samples = 0\<close>, and an object it returns has \<^verbatim>\<open>GPU_offscreen_samples\<close> 0.
\<close>

lemma offscreen_create_samples_clamped:
  assumes "samples \<noteq> 0"
    and "\<not> GLEW_EXT_framebuffer_multisample dev \<or>
         (\<not> GLEW_ARB_texture_multisample dev \<and>
          (mode AND GPU_OFFSCREEN_RENDERBUFFER_COLOR bits = 0 \<or>
           mode AND GPU_OFFSCREEN_RENDERBUFFER_DEPTH bits = 0)) \<or>
         \<not> GLEW_EXT_framebuffer_blit dev"
  shows "GPU_offscreen_create dev bits s w h samples dt mode =
           GPU_offscreen_create dev bits s w h 0 dt mode \<and>
         (\<forall>ofs s'. GPU_offscreen_create dev bits s w h samples dt mode = Inr (Some ofs, s') \<longrightarrow>
            GPU_offscreen_samples s' (Some ofs) = Inr 0)"
proof (intro conjI allI impI)
  have z: "offscreen_samples dev bits samples mode = 0"
    using assms by (auto simp add: offscreen_samples_def)
  have z0: "offscreen_samples dev bits 0 mode = 0"
    by (simp add: offscreen_samples_def)
  show "GPU_offscreen_create dev bits s w h samples dt mode =
           GPU_offscreen_create dev bits s w h 0 dt mode"
    unfolding GPU_offscreen_create_def z z0 by (rule refl)
next
  fix ofs s'
  assume ok: "GPU_offscreen_create dev bits s w h samples dt mode = Inr (Some ofs, s')"
  have z: "offscreen_samples dev bits samples mode = 0"
    using assms by (auto simp add: offscreen_samples_def)
  from offscreen_create_success [OF ok] obtain fb s1 s4 s5 os s6 where
    col: "offscreen_create_color dev bits
        (ofs_store (ofs_store s1 ofs (calloc_GPUOffScreen\<lparr>ofs_fb := Some fb\<rparr>)) ofs
           (calloc_GPUOffScreen\<lparr>ofs_fb := Some fb, ofs_samples := 0\<rparr>))
        ofs w h 0 dt mode = Inr (Some ofs, s4)"
    and dep: "offscreen_create_depth dev bits s4 ofs w h 0 dt mode = Inr (Some ofs, s5)"
    and os: "ofss s5 ofs = Some os"
    and chk: "GPU_framebuffer_check_valid (glCheckFramebufferStatus_result dev) s5 (ofs_fb os)
        = Inr (True, s6)"
    and s': "s' = GPU_framebuffer_restore s6"
    unfolding z by blast
  let ?os3 = "calloc_GPUOffScreen\<lparr>ofs_fb := Some fb, ofs_samples := 0\<rparr>"
  let ?s3 = "ofs_store (ofs_store s1 ofs (calloc_GPUOffScreen\<lparr>ofs_fb := Some fb\<rparr>)) ofs ?os3"
  have s3: "ofss ?s3 ofs = Some ?os3" by simp
  from create_color_samples [OF col s3] obtain os4 where
    os4: "ofss s4 ofs = Some os4" "ofs_samples os4 = 0"
    by auto
  from create_depth_samples [OF dep os4(1)] os4(2) os have "ofs_samples os = 0"
    by auto
  moreover have "ofss s' ofs = Some os"
    using check_valid_ofss [OF chk] os s' by simp
  ultimately show "GPU_offscreen_samples s' (Some ofs) = Inr 0"
    by (simp add: GPU_offscreen_samples_def)
qed

text \<open>
  With both surfaces backed by renderbuffers, on a device that generates every name,
  accepts both attaches and reports the framebuffer complete, but lacks the multisample
  or the blit extension, the creation returns an object, whatever \<^verbatim>\<open>samples\<close> was
  requested; the object has \<^verbatim>\<open>GPU_offscreen_samples\<close> 0 and both renderbuffers attached.
\<close>

lemma create_renderbuffer_mode_object:
  assumes "mode AND GPU_OFFSCREEN_RENDERBUFFER_COLOR bits \<noteq> 0"
    and "mode AND GPU_OFFSCREEN_RENDERBUFFER_DEPTH bits \<noteq> 0"
    and "glGenFramebuffers_name dev \<noteq> 0"
    and "glGenRenderbuffers_name dev GPU_RENDERBUFFER_COLOR \<noteq> 0"
    and "glGenRenderbuffers_name dev GPU_RENDERBUFFER_DEPTH \<noteq> 0"
    and "glGetError_attach dev GPU_RENDERBUFFER_COLOR \<noteq> GL_INVALID_OPERATION"
    and "glGetError_attach dev GPU_RENDERBUFFER_DEPTH \<noteq> GL_INVALID_OPERATION"
    and "glCheckFramebufferStatus_result dev = GL_FRAMEBUFFER_COMPLETE"
    and "\<not> GLEW_EXT_framebuffer_multisample dev \<or> \<not> GLEW_EXT_framebuffer_blit dev"
  shows "\<exists>s'. GPU_offscreen_create dev bits s w h samples dt mode = Inr (Some (next_addr s), s')
     \<and> GPU_offscreen_samples s' (Some (next_addr s)) = Inr 0
     \<and> ofss s' (next_addr s) =
         Some \<lparr>ofs_fb = Some (next_addr s + 1), ofs_color = None, ofs_depth = None,
               ofs_rbcolor = Some (next_addr s + 2), ofs_rbdepth = Some (next_addr s + 3),
               ofs_samples = 0\<rparr>
     \<and> map_option colorrb (fbs s' (next_addr s + 1))
           = Some (Slots (Some (next_addr s + 2)) None None None)
     \<and> map_option depthrb (fbs s' (next_addr s + 1)) = Some (Some (next_addr s + 3))"
proof -
  have z: "offscreen_samples dev bits samples mode = 0"
    using assms(9) by (auto simp add: offscreen_samples_def)
  show ?thesis
    using assms(1-8)
    by (simp add: GPU_offscreen_create_def z offscreen_create_color_def offscreen_create_depth_def
       GPU_framebuffer_create_def GPU_renderbuffer_create_def
       GPU_framebuffer_renderbuffer_attach_def GPU_framebuffer_check_valid_def
       GPU_framebuffer_restore_def rb_acc_defs Let_def
       calloc_GPUOffScreen_def calloc_GPUFrameBuffer_def calloc_GPURenderBuffer_def
       GPU_FB_MAX_SLOTS_def GPU_offscreen_samples_def)
qed

text \<open>A creation that asks for a texture-backed color or depth surface returns no
  object.\<close>

lemma texture_mode_no_object:
  assumes "mode AND GPU_OFFSCREEN_RENDERBUFFER_COLOR bits = 0 \<or>
           mode AND GPU_OFFSCREEN_RENDERBUFFER_DEPTH bits = 0"
  shows "GPU_offscreen_create dev bits s w h samples dt mode \<noteq> Inr (Some ofs, s')"
proof
  assume ok: "GPU_offscreen_create dev bits s w h samples dt mode = Inr (Some ofs, s')"
  from offscreen_create_success [OF ok] obtain fb s1 s4 s5 where
    col: "offscreen_create_color dev bits
        (ofs_store (ofs_store s1 ofs (calloc_GPUOffScreen\<lparr>ofs_fb := Some fb\<rparr>)) ofs
           (calloc_GPUOffScreen\<lparr>ofs_fb := Some fb,
              ofs_samples := offscreen_samples dev bits samples mode\<rparr>))
        ofs w h (offscreen_samples dev bits samples mode) dt mode = Inr (Some ofs, s4)"
    and dep: "offscreen_create_depth dev bits s4 ofs w h (offscreen_samples dev bits samples mode)
        dt mode = Inr (Some ofs, s5)"
    by blast
  let ?os3 = "calloc_GPUOffScreen\<lparr>ofs_fb := Some fb,
              ofs_samples := offscreen_samples dev bits samples mode\<rparr>"
  let ?s3 = "ofs_store (ofs_store s1 ofs (calloc_GPUOffScreen\<lparr>ofs_fb := Some fb\<rparr>)) ofs ?os3"
  have s3: "ofss ?s3 ofs = Some ?os3" by simp
  have c0: "mode AND GPU_OFFSCREEN_RENDERBUFFER_COLOR bits \<noteq> 0"
    using create_color_texture_mode [OF _ s3, of mode bits] col
    by (auto simp add: calloc_GPUOffScreen_def)
  from create_color_samples [OF col s3] c0 obtain os4 where
    os4: "ofss s4 ofs = Some os4" "ofs_color os4 = None"
    by (auto simp add: calloc_GPUOffScreen_def)
  have "mode AND GPU_OFFSCREEN_RENDERBUFFER_DEPTH bits \<noteq> 0"
    using create_depth_texture_mode [OF _ os4] dep by auto
  with c0 assms show False by simp
qed

text \<open>
  C4. The claim asks that a creation with \<^verbatim>\<open>samples > 0\<close> on a device that lacks a
  required capability still produces an object, one with \<^verbatim>\<open>GPU_offscreen_samples\<close> 0.
  Multisample textures are required only when the color or the depth surface is
  texture-backed. In that case the code does clamp \<^verbatim>\<open>samples\<close>: the creation goes
  exactly as it does for \<^verbatim>\<open>samples = 0\<close>. But it produces no object, whatever the device
  answers, because the texture branches attach the wrong surface (the defect of C2). The
  renderbuffer-backed creation does what the claim says
  (\<open>create_renderbuffer_mode_object\<close>).
\<close>

theorem offscreen_create_texture_fallback_no_object:
  assumes "samples > 0" and "\<not> GLEW_ARB_texture_multisample dev"
    and "mode AND GPU_OFFSCREEN_RENDERBUFFER_COLOR bits = 0 \<or>
         mode AND GPU_OFFSCREEN_RENDERBUFFER_DEPTH bits = 0"
  shows "offscreen_samples dev bits samples mode = 0 \<and>
         GPU_offscreen_create dev bits s w h samples dt mode =
           GPU_offscreen_create dev bits s w h 0 dt mode \<and>
         GPU_offscreen_create dev bits s w h samples dt mode \<noteq> Inr (Some ofs, s')"
proof -
  have z: "offscreen_samples dev bits samples mode = 0"
    using assms by (auto simp add: offscreen_samples_def)
  have c: "\<not> GLEW_EXT_framebuffer_multisample dev \<or>
         (\<not> GLEW_ARB_texture_multisample dev \<and>
          (mode AND GPU_OFFSCREEN_RENDERBUFFER_COLOR bits = 0 \<or>
           mode AND GPU_OFFSCREEN_RENDERBUFFER_DEPTH bits = 0)) \<or>
         \<not> GLEW_EXT_framebuffer_blit dev"
    using assms(2,3) by blast
  have n: "samples \<noteq> 0" using assms(1) by simp
  from z offscreen_create_samples_clamped [OF n c] texture_mode_no_object [OF assms(3)]
  show ?thesis by blast
qed

theorem offscreen_create_texture_fallback_no_object_witness:
  "(0 :: int) < 8 \<and> \<not> GLEW_ARB_texture_multisample device_no_texture_multisample \<and>
   (0 :: 32 word) AND GPU_OFFSCREEN_RENDERBUFFER_COLOR mode_bits0 = 0 \<and>
   offscreen_samples device_no_texture_multisample mode_bits0 8 0 = 0 \<and>
   GPU_offscreen_create device_no_texture_multisample mode_bits0 scene 64 64 8 GPU_RGBA8 0 =
     GPU_offscreen_create device_no_texture_multisample mode_bits0 scene 64 64 0 GPU_RGBA8 0 \<and>
   GPU_offscreen_create device_no_texture_multisample mode_bits0 scene 64 64 8 GPU_RGBA8 0
     \<noteq> Inr (Some 30, scene) \<and>
   GPU_offscreen_create device_no_texture_multisample mode_bits0 scene 64 64 8 GPU_RGBA8 0
     = Inl NullDeref"
proof -
  have h1: "(0 :: int) < 8" by simp
  have h2: "\<not> GLEW_ARB_texture_multisample device_no_texture_multisample"
    by (simp add: device_no_texture_multisample_def)
  have h3: "(0 :: 32 word) AND GPU_OFFSCREEN_RENDERBUFFER_COLOR mode_bits0 = 0"
    by simp
  then have h3': "(0 :: 32 word) AND GPU_OFFSCREEN_RENDERBUFFER_COLOR mode_bits0 = 0 \<or>
                  (0 :: 32 word) AND GPU_OFFSCREEN_RENDERBUFFER_DEPTH mode_bits0 = 0"
    by simp
  have ev: "GPU_offscreen_create device_no_texture_multisample mode_bits0 scene 64 64 8
              GPU_RGBA8 0 = Inl NullDeref"
    by (simp add: offscreen_create_defs device_no_texture_multisample_def device_ok_def
        mode_bits0_def scene_def color_texture_def depth_texture_def)
  from offscreen_create_texture_fallback_no_object
         [OF h1 h2 h3', of scene 64 64 GPU_RGBA8 30 scene] h1 h2 h3 ev
  show ?thesis by blast
qed

section \<open>Release of a framebuffer\<close>

lemma slot_get_put:
  "0 \<le> i \<Longrightarrow> i < 4 \<Longrightarrow> slot_get (slot_put a i v) j = (if j = i then Inr v else slot_get a j)"
  by (cases a) (auto simp: slot_put_def)

lemma slot_put_same: "slot_get a i = Inr v \<Longrightarrow> slot_put a i v = a"
  by (cases a) (auto simp: slot_put_def split: if_splits)

lemma slot_get_range: "slot_get a i = Inr v \<Longrightarrow> 0 \<le> i \<and> i < 4"
  by (cases a) (auto split: if_splits)

text \<open>Detaching the texture of a color slot that agrees with its back-reference.\<close>

lemma detach_color_texture:
  assumes "fbs s a = Some f" and "slot_get (colortex f) i = Inr (Some t)"
    and "texs s t = Some tx" and "tex_fb tx = Some a" and "tex_fb_attachment tx = i"
    and "\<not> tex_depth tx"
  shows "\<exists>s'. GPU_framebuffer_texture_detach s (Some t) = Inr s'
     \<and> fbs s' = (fbs s)(a \<mapsto> f\<lparr>colortex := slot_put (colortex f) i None\<rparr>)
     \<and> texs s' = (texs s)(t \<mapsto> tx\<lparr>tex_fb := None, tex_fb_attachment := - 1\<rparr>)
     \<and> rbs s' = rbs s \<and> currentfb s' = object f"
proof -
  have r: "0 \<le> i" "i < 4" using slot_get_range [OF assms(2)] by simp_all
  show ?thesis
    using assms slot_set_put [OF r, of "colortex f" None]
    by (simp add: GPU_framebuffer_texture_detach_def GPU_framebuffer_texture_detach_target_def
        tex_acc_defs Let_def)
qed

lemma detach_depth_texture:
  assumes "fbs s a = Some f" and "depthtex f = Some t"
    and "texs s t = Some tx" and "tex_fb tx = Some a" and "tex_depth tx"
  shows "\<exists>s'. GPU_framebuffer_texture_detach s (Some t) = Inr s'
     \<and> fbs s' = (fbs s)(a \<mapsto> f\<lparr>depthtex := None\<rparr>)
     \<and> texs s' = (texs s)(t \<mapsto> tx\<lparr>tex_fb := None, tex_fb_attachment := - 1\<rparr>)
     \<and> rbs s' = rbs s \<and> currentfb s' = object f"
  using assms
  by (simp add: GPU_framebuffer_texture_detach_def GPU_framebuffer_texture_detach_target_def
      tex_acc_defs Let_def)

lemma detach_color_renderbuffer:
  assumes "fbs s a = Some f" and "slot_get (colorrb f) i = Inr (Some r)"
    and "rbs s r = Some rx" and "rb_fb rx = Some a" and "rb_fb_attachment rx = i"
    and "\<not> rb_depth rx"
  shows "\<exists>s'. GPU_framebuffer_renderbuffer_detach s (Some r) = Inr s'
     \<and> fbs s' = (fbs s)(a \<mapsto> f\<lparr>colorrb := slot_put (colorrb f) i None\<rparr>)
     \<and> rbs s' = (rbs s)(r \<mapsto> rx\<lparr>rb_fb := None, rb_fb_attachment := - 1\<rparr>)
     \<and> texs s' = texs s \<and> currentfb s' = object f"
proof -
  have r: "0 \<le> i" "i < 4" using slot_get_range [OF assms(2)] by simp_all
  show ?thesis
    using assms slot_set_put [OF r, of "colorrb f" None]
    by (simp add: GPU_framebuffer_renderbuffer_detach_def rb_acc_defs Let_def)
qed

lemma detach_depth_renderbuffer:
  assumes "fbs s a = Some f" and "depthrb f = Some r"
    and "rbs s r = Some rx" and "rb_fb rx = Some a" and "rb_depth rx"
  shows "\<exists>s'. GPU_framebuffer_renderbuffer_detach s (Some r) = Inr s'
     \<and> fbs s' = (fbs s)(a \<mapsto> f\<lparr>depthrb := None\<rparr>)
     \<and> rbs s' = (rbs s)(r \<mapsto> rx\<lparr>rb_fb := None, rb_fb_attachment := - 1\<rparr>)
     \<and> texs s' = texs s \<and> currentfb s' = object f"
  using assms
  by (simp add: GPU_framebuffer_renderbuffer_detach_def rb_acc_defs Let_def)


lemma tex_slot_ok_kept:
  assumes "tex_slot_ok s a j" and "fbs s a = Some f" and "fbs s' a = Some f'"
    and "slot_get (colortex f') j = slot_get (colortex f) j"
    and "\<And>t. slot_get (colortex f) j = Inr (Some t) \<Longrightarrow> texs s' t = texs s t"
  shows "tex_slot_ok s' a j"
  using assms by (auto simp add: tex_slot_ok_def split: sum.splits option.splits)

lemma tex_slot_ok_empty:
  "fbs s' a = Some f' \<Longrightarrow> slot_get (colortex f') j = Inr None \<Longrightarrow> tex_slot_ok s' a j"
  by (simp add: tex_slot_ok_def)

lemma depthtex_ok_kept:
  assumes "depthtex_ok s a" and "fbs s a = Some f" and "fbs s' a = Some f'"
    and "depthtex f' = depthtex f"
    and "\<And>t. depthtex f = Some t \<Longrightarrow> texs s' t = texs s t"
  shows "depthtex_ok s' a"
  using assms by (auto simp add: depthtex_ok_def split: option.splits)

lemma depthtex_ok_empty:
  "fbs s' a = Some f' \<Longrightarrow> depthtex f' = None \<Longrightarrow> depthtex_ok s' a"
  by (simp add: depthtex_ok_def)

lemma rb_slot_ok_kept:
  assumes "rb_slot_ok s a j" and "fbs s a = Some f" and "fbs s' a = Some f'"
    and "slot_get (colorrb f') j = slot_get (colorrb f) j"
    and "\<And>r. slot_get (colorrb f) j = Inr (Some r) \<Longrightarrow> rbs s' r = rbs s r"
  shows "rb_slot_ok s' a j"
  using assms by (auto simp add: rb_slot_ok_def split: sum.splits option.splits)

lemma rb_slot_ok_empty:
  "fbs s' a = Some f' \<Longrightarrow> slot_get (colorrb f') j = Inr None \<Longrightarrow> rb_slot_ok s' a j"
  by (simp add: rb_slot_ok_def)

lemma depthrb_ok_kept:
  assumes "depthrb_ok s a" and "fbs s a = Some f" and "fbs s' a = Some f'"
    and "depthrb f' = depthrb f"
    and "\<And>r. depthrb f = Some r \<Longrightarrow> rbs s' r = rbs s r"
  shows "depthrb_ok s' a"
  using assms by (auto simp add: depthrb_ok_def split: option.splits)

lemma depthrb_ok_empty:
  "fbs s' a = Some f' \<Longrightarrow> depthrb f' = None \<Longrightarrow> depthrb_ok s' a"
  by (simp add: depthrb_ok_def)

lemma agreeD:
  assumes "attachments_agree s a"
  shows "depthtex_ok s a" and "depthrb_ok s a"
    and "j \<in> {0, 1, 2, 3} \<Longrightarrow> tex_slot_ok s a j" and "j \<in> {0, 1, 2, 3} \<Longrightarrow> rb_slot_ok s a j"
  using assms by (auto simp add: attachments_agree_def)

lemma agreeI:
  assumes "depthtex_ok s a" and "depthrb_ok s a"
    and "\<And>j. j \<in> {0, 1, 2, 3} \<Longrightarrow> tex_slot_ok s a j"
    and "\<And>j. j \<in> {0, 1, 2, 3} \<Longrightarrow> rb_slot_ok s a j"
  shows "attachments_agree s a"
  using assms by (simp add: attachments_agree_def)

lemma tex_slot_okD:
  assumes "tex_slot_ok s a j" and "fbs s a = Some f" and "slot_get (colortex f) j = Inr (Some t)"
  shows "\<exists>tx. texs s t = Some tx \<and> tex_fb tx = Some a \<and> tex_fb_attachment tx = j \<and> \<not> tex_depth tx"
  using assms by (auto simp add: tex_slot_ok_def split: option.splits)

lemma depthtex_okD:
  assumes "depthtex_ok s a" and "fbs s a = Some f" and "depthtex f = Some t"
  shows "\<exists>tx. texs s t = Some tx \<and> tex_fb tx = Some a \<and> tex_depth tx"
  using assms by (auto simp add: depthtex_ok_def split: option.splits)

lemma rb_slot_okD:
  assumes "rb_slot_ok s a j" and "fbs s a = Some f" and "slot_get (colorrb f) j = Inr (Some r)"
  shows "\<exists>rx. rbs s r = Some rx \<and> rb_fb rx = Some a \<and> rb_fb_attachment rx = j \<and> \<not> rb_depth rx"
  using assms by (auto simp add: rb_slot_ok_def split: option.splits)

lemma depthrb_okD:
  assumes "depthrb_ok s a" and "fbs s a = Some f" and "depthrb f = Some r"
  shows "\<exists>rx. rbs s r = Some rx \<and> rb_fb rx = Some a \<and> rb_depth rx"
  using assms by (auto simp add: depthrb_ok_def split: option.splits)

lemma step_depthtex:
  assumes "attachments_agree s a" and "fbs s a = Some f"
  shows "\<exists>s'. (if depthtex f \<noteq> None then GPU_framebuffer_texture_detach s (depthtex f) else Inr s)
           = Inr s'
     \<and> attachments_agree s' a
     \<and> fbs s' = (fbs s)(a \<mapsto> f\<lparr>depthtex := None\<rparr>) \<and> rbs s' = rbs s
     \<and> (\<forall>t. tex_free s t \<longrightarrow> tex_free s' t)
     \<and> (\<forall>t. depthtex f = Some t \<longrightarrow> tex_free s' t)
     \<and> currentfb s' = (if depthtex f = None then currentfb s else object f)"
proof (cases "depthtex f")
  case None
  then have "f\<lparr>depthtex := None\<rparr> = f" by simp
  with None assms show ?thesis by (simp add: fun_upd_idem)
next
  case (Some t)
  from depthtex_okD [OF agreeD(1) [OF assms(1)] assms(2) Some] obtain tx where
    tx: "texs s t = Some tx" "tex_fb tx = Some a" "tex_depth tx"
    by blast
  from detach_depth_texture [OF assms(2) Some tx] obtain s' where
    s': "GPU_framebuffer_texture_detach s (Some t) = Inr s'"
      "fbs s' = (fbs s)(a \<mapsto> f\<lparr>depthtex := None\<rparr>)"
      "texs s' = (texs s)(t \<mapsto> tx\<lparr>tex_fb := None, tex_fb_attachment := - 1\<rparr>)"
      "rbs s' = rbs s" "currentfb s' = object f"
    by blast
  have fb': "fbs s' a = Some (f\<lparr>depthtex := None\<rparr>)" using s'(2) by simp
  have "attachments_agree s' a"
  proof (rule agreeI)
    show "depthtex_ok s' a" by (rule depthtex_ok_empty [OF fb']) simp
    show "depthrb_ok s' a"
      by (rule depthrb_ok_kept [OF agreeD(2) [OF assms(1)] assms(2) fb']) (simp_all add: s'(4))
    fix j :: int assume j: "j \<in> {0, 1, 2, 3}"
    show "tex_slot_ok s' a j"
    proof (rule tex_slot_ok_kept [OF agreeD(3) [OF assms(1) j] assms(2) fb'])
      show "slot_get (colortex (f\<lparr>depthtex := None\<rparr>)) j = slot_get (colortex f) j" by simp
      fix u assume "slot_get (colortex f) j = Inr (Some u)"
      from tex_slot_okD [OF agreeD(3) [OF assms(1) j] assms(2) this] tx
      have "u \<noteq> t" by auto
      then show "texs s' u = texs s u" by (simp add: s'(3))
    qed
    show "rb_slot_ok s' a j"
      by (rule rb_slot_ok_kept [OF agreeD(4) [OF assms(1) j] assms(2) fb']) (simp_all add: s'(4))
  qed
  moreover have "\<forall>u. tex_free s u \<longrightarrow> tex_free s' u"
    using s'(3) by (auto simp add: tex_free_def split: option.splits)
  moreover have "tex_free s' t"
    using s'(3) by (simp add: tex_free_def)
  ultimately show ?thesis
    using Some s' by simp
qed


lemma step_colortex:
  assumes "attachments_agree s a" and "fbs s a = Some f" and i: "i \<in> {0, 1, 2, 3}"
  shows "\<exists>s'. free_colortex_body (Some a) s i = Inr s'
     \<and> attachments_agree s' a
     \<and> fbs s' = (fbs s)(a \<mapsto> f\<lparr>colortex := slot_put (colortex f) i None\<rparr>) \<and> rbs s' = rbs s
     \<and> (\<forall>t. tex_free s t \<longrightarrow> tex_free s' t)
     \<and> (\<forall>t. slot_get (colortex f) i = Inr (Some t) \<longrightarrow> tex_free s' t)
     \<and> currentfb s' = (if slot_get (colortex f) i = Inr None then currentfb s else object f)"
proof -
  from i have r: "0 \<le> i" "i < 4" by auto
  obtain e where e: "slot_get (colortex f) i = Inr e"
    using i by (cases "colortex f") auto
  show ?thesis
  proof (cases e)
    case None
    with e have "f\<lparr>colortex := slot_put (colortex f) i None\<rparr> = f"
      by (simp add: slot_put_same)
    with None e assms show ?thesis
      by (simp add: free_colortex_body_def fun_upd_idem)
  next
    case (Some t)
    with e have sl: "slot_get (colortex f) i = Inr (Some t)" by simp
    from tex_slot_okD [OF agreeD(3) [OF assms(1) i] assms(2) sl] obtain tx where
      tx: "texs s t = Some tx" "tex_fb tx = Some a" "tex_fb_attachment tx = i" "\<not> tex_depth tx"
      by blast
    from detach_color_texture [OF assms(2) sl tx] obtain s' where
      s': "GPU_framebuffer_texture_detach s (Some t) = Inr s'"
        "fbs s' = (fbs s)(a \<mapsto> f\<lparr>colortex := slot_put (colortex f) i None\<rparr>)"
        "texs s' = (texs s)(t \<mapsto> tx\<lparr>tex_fb := None, tex_fb_attachment := - 1\<rparr>)"
        "rbs s' = rbs s" "currentfb s' = object f"
      by blast
    let ?f' = "f\<lparr>colortex := slot_put (colortex f) i None\<rparr>"
    have fb': "fbs s' a = Some ?f'" using s'(2) by simp
    have "attachments_agree s' a"
    proof (rule agreeI)
      show "depthtex_ok s' a"
      proof (rule depthtex_ok_kept [OF agreeD(1) [OF assms(1)] assms(2) fb'])
        show "depthtex ?f' = depthtex f" by simp
        fix u assume "depthtex f = Some u"
        from depthtex_okD [OF agreeD(1) [OF assms(1)] assms(2) this] tx
        have "u \<noteq> t" by auto
        then show "texs s' u = texs s u" by (simp add: s'(3))
      qed
      show "depthrb_ok s' a"
        by (rule depthrb_ok_kept [OF agreeD(2) [OF assms(1)] assms(2) fb']) (simp_all add: s'(4))
      fix j :: int assume j: "j \<in> {0, 1, 2, 3}"
      show "tex_slot_ok s' a j"
      proof (cases "j = i")
        case True
        show ?thesis
          by (rule tex_slot_ok_empty [OF fb']) (simp add: slot_get_put [OF r] True)
      next
        case False
        show ?thesis
        proof (rule tex_slot_ok_kept [OF agreeD(3) [OF assms(1) j] assms(2) fb'])
          show "slot_get (colortex ?f') j = slot_get (colortex f) j"
            using False by (simp add: slot_get_put [OF r])
          fix u assume "slot_get (colortex f) j = Inr (Some u)"
          from tex_slot_okD [OF agreeD(3) [OF assms(1) j] assms(2) this] tx False
          have "u \<noteq> t" by auto
          then show "texs s' u = texs s u" by (simp add: s'(3))
        qed
      qed
      show "rb_slot_ok s' a j"
        by (rule rb_slot_ok_kept [OF agreeD(4) [OF assms(1) j] assms(2) fb']) (simp_all add: s'(4))
    qed
    moreover have "\<forall>u. tex_free s u \<longrightarrow> tex_free s' u"
      using s'(3) by (auto simp add: tex_free_def split: option.splits)
    moreover have "tex_free s' t"
      using s'(3) by (simp add: tex_free_def)
    ultimately show ?thesis
      using sl s' assms(2) by (simp add: free_colortex_body_def)
  qed
qed

lemma step_depthrb:
  assumes "attachments_agree s a" and "fbs s a = Some f"
  shows "\<exists>s'. (if depthrb f \<noteq> None then GPU_framebuffer_renderbuffer_detach s (depthrb f)
               else Inr s) = Inr s'
     \<and> attachments_agree s' a
     \<and> fbs s' = (fbs s)(a \<mapsto> f\<lparr>depthrb := None\<rparr>) \<and> texs s' = texs s
     \<and> (\<forall>r. rb_free s r \<longrightarrow> rb_free s' r)
     \<and> (\<forall>r. depthrb f = Some r \<longrightarrow> rb_free s' r)
     \<and> currentfb s' = (if depthrb f = None then currentfb s else object f)"
proof (cases "depthrb f")
  case None
  then have "f\<lparr>depthrb := None\<rparr> = f" by simp
  with None assms show ?thesis by (simp add: fun_upd_idem)
next
  case (Some t)
  from depthrb_okD [OF agreeD(2) [OF assms(1)] assms(2) Some] obtain tx where
    tx: "rbs s t = Some tx" "rb_fb tx = Some a" "rb_depth tx"
    by blast
  from detach_depth_renderbuffer [OF assms(2) Some tx] obtain s' where
    s': "GPU_framebuffer_renderbuffer_detach s (Some t) = Inr s'"
      "fbs s' = (fbs s)(a \<mapsto> f\<lparr>depthrb := None\<rparr>)"
      "rbs s' = (rbs s)(t \<mapsto> tx\<lparr>rb_fb := None, rb_fb_attachment := - 1\<rparr>)"
      "texs s' = texs s" "currentfb s' = object f"
    by blast
  have fb': "fbs s' a = Some (f\<lparr>depthrb := None\<rparr>)" using s'(2) by simp
  have "attachments_agree s' a"
  proof (rule agreeI)
    show "depthrb_ok s' a" by (rule depthrb_ok_empty [OF fb']) simp
    show "depthtex_ok s' a"
      by (rule depthtex_ok_kept [OF agreeD(1) [OF assms(1)] assms(2) fb']) (simp_all add: s'(4))
    fix j :: int assume j: "j \<in> {0, 1, 2, 3}"
    show "rb_slot_ok s' a j"
    proof (rule rb_slot_ok_kept [OF agreeD(4) [OF assms(1) j] assms(2) fb'])
      show "slot_get (colorrb (f\<lparr>depthrb := None\<rparr>)) j = slot_get (colorrb f) j" by simp
      fix u assume "slot_get (colorrb f) j = Inr (Some u)"
      from rb_slot_okD [OF agreeD(4) [OF assms(1) j] assms(2) this] tx
      have "u \<noteq> t" by auto
      then show "rbs s' u = rbs s u" by (simp add: s'(3))
    qed
    show "tex_slot_ok s' a j"
      by (rule tex_slot_ok_kept [OF agreeD(3) [OF assms(1) j] assms(2) fb']) (simp_all add: s'(4))
  qed
  moreover have "\<forall>u. rb_free s u \<longrightarrow> rb_free s' u"
    using s'(3) by (auto simp add: rb_free_def split: option.splits)
  moreover have "rb_free s' t"
    using s'(3) by (simp add: rb_free_def)
  ultimately show ?thesis
    using Some s' by simp
qed

lemma step_colorrb:
  assumes "attachments_agree s a" and "fbs s a = Some f" and i: "i \<in> {0, 1, 2, 3}"
  shows "\<exists>s'. free_colorrb_body (Some a) s i = Inr s'
     \<and> attachments_agree s' a
     \<and> fbs s' = (fbs s)(a \<mapsto> f\<lparr>colorrb := slot_put (colorrb f) i None\<rparr>) \<and> texs s' = texs s
     \<and> (\<forall>r. rb_free s r \<longrightarrow> rb_free s' r)
     \<and> (\<forall>r. slot_get (colorrb f) i = Inr (Some r) \<longrightarrow> rb_free s' r)
     \<and> currentfb s' = (if slot_get (colorrb f) i = Inr None then currentfb s else object f)"
proof -
  from i have r: "0 \<le> i" "i < 4" by auto
  obtain e where e: "slot_get (colorrb f) i = Inr e"
    using i by (cases "colorrb f") auto
  show ?thesis
  proof (cases e)
    case None
    with e have "f\<lparr>colorrb := slot_put (colorrb f) i None\<rparr> = f"
      by (simp add: slot_put_same)
    with None e assms show ?thesis
      by (simp add: free_colorrb_body_def fun_upd_idem)
  next
    case (Some t)
    with e have sl: "slot_get (colorrb f) i = Inr (Some t)" by simp
    from rb_slot_okD [OF agreeD(4) [OF assms(1) i] assms(2) sl] obtain tx where
      tx: "rbs s t = Some tx" "rb_fb tx = Some a" "rb_fb_attachment tx = i" "\<not> rb_depth tx"
      by blast
    from detach_color_renderbuffer [OF assms(2) sl tx] obtain s' where
      s': "GPU_framebuffer_renderbuffer_detach s (Some t) = Inr s'"
        "fbs s' = (fbs s)(a \<mapsto> f\<lparr>colorrb := slot_put (colorrb f) i None\<rparr>)"
        "rbs s' = (rbs s)(t \<mapsto> tx\<lparr>rb_fb := None, rb_fb_attachment := - 1\<rparr>)"
        "texs s' = texs s" "currentfb s' = object f"
      by blast
    let ?f' = "f\<lparr>colorrb := slot_put (colorrb f) i None\<rparr>"
    have fb': "fbs s' a = Some ?f'" using s'(2) by simp
    have "attachments_agree s' a"
    proof (rule agreeI)
      show "depthrb_ok s' a"
      proof (rule depthrb_ok_kept [OF agreeD(2) [OF assms(1)] assms(2) fb'])
        show "depthrb ?f' = depthrb f" by simp
        fix u assume "depthrb f = Some u"
        from depthrb_okD [OF agreeD(2) [OF assms(1)] assms(2) this] tx
        have "u \<noteq> t" by auto
        then show "rbs s' u = rbs s u" by (simp add: s'(3))
      qed
      show "depthtex_ok s' a"
        by (rule depthtex_ok_kept [OF agreeD(1) [OF assms(1)] assms(2) fb']) (simp_all add: s'(4))
      fix j :: int assume j: "j \<in> {0, 1, 2, 3}"
      show "rb_slot_ok s' a j"
      proof (cases "j = i")
        case True
        show ?thesis
          by (rule rb_slot_ok_empty [OF fb']) (simp add: slot_get_put [OF r] True)
      next
        case False
        show ?thesis
        proof (rule rb_slot_ok_kept [OF agreeD(4) [OF assms(1) j] assms(2) fb'])
          show "slot_get (colorrb ?f') j = slot_get (colorrb f) j"
            using False by (simp add: slot_get_put [OF r])
          fix u assume "slot_get (colorrb f) j = Inr (Some u)"
          from rb_slot_okD [OF agreeD(4) [OF assms(1) j] assms(2) this] tx False
          have "u \<noteq> t" by auto
          then show "rbs s' u = rbs s u" by (simp add: s'(3))
        qed
      qed
      show "tex_slot_ok s' a j"
        by (rule tex_slot_ok_kept [OF agreeD(3) [OF assms(1) j] assms(2) fb']) (simp_all add: s'(4))
    qed
    moreover have "\<forall>u. rb_free s u \<longrightarrow> rb_free s' u"
      using s'(3) by (auto simp add: rb_free_def split: option.splits)
    moreover have "rb_free s' t"
      using s'(3) by (simp add: rb_free_def)
    ultimately show ?thesis
      using sl s' assms(2) by (simp add: free_colorrb_body_def)
  qed
qed


lemma loop_colortex:
  assumes "attachments_agree s a" and "fbs s a = Some f" and ct: "colortex f = Slots c0 c1 c2 c3"
  shows "\<exists>s'. for_loop (free_colortex_body (Some a)) [0, 1, 2, 3] s = Inr s'
     \<and> attachments_agree s' a
     \<and> fbs s' = (fbs s)(a \<mapsto> f\<lparr>colortex := Slots None None None None\<rparr>) \<and> rbs s' = rbs s
     \<and> (\<forall>t. tex_free s t \<longrightarrow> tex_free s' t)
     \<and> (\<forall>t. Some t \<in> {c0, c1, c2, c3} \<longrightarrow> tex_free s' t)
     \<and> currentfb s' = (if c0 = None \<and> c1 = None \<and> c2 = None \<and> c3 = None then currentfb s
                       else object f)"
proof -
  from step_colortex [OF assms(1,2), of 0] obtain s1 where
    1: "free_colortex_body (Some a) s 0 = Inr s1" "attachments_agree s1 a"
      "fbs s1 a = Some (f\<lparr>colortex := Slots None c1 c2 c3\<rparr>)"
      "fbs s1 = (fbs s)(a \<mapsto> f\<lparr>colortex := Slots None c1 c2 c3\<rparr>)" "rbs s1 = rbs s"
      "\<forall>t. tex_free s t \<longrightarrow> tex_free s1 t" "\<forall>t. c0 = Some t \<longrightarrow> tex_free s1 t"
      "currentfb s1 = (if c0 = None then currentfb s else object f)"
    by (auto simp add: ct slot_put_def)
  from step_colortex [OF 1(2,3), of 1] obtain s2 where
    2: "free_colortex_body (Some a) s1 1 = Inr s2" "attachments_agree s2 a"
      "fbs s2 a = Some (f\<lparr>colortex := Slots None None c2 c3\<rparr>)"
      "fbs s2 = (fbs s)(a \<mapsto> f\<lparr>colortex := Slots None None c2 c3\<rparr>)" "rbs s2 = rbs s1"
      "\<forall>t. tex_free s1 t \<longrightarrow> tex_free s2 t" "\<forall>t. c1 = Some t \<longrightarrow> tex_free s2 t"
      "currentfb s2 = (if c1 = None then currentfb s1 else object f)"
    by (auto simp add: slot_put_def 1(4))
  from step_colortex [OF 2(2,3), of 2] obtain s3 where
    3: "free_colortex_body (Some a) s2 2 = Inr s3" "attachments_agree s3 a"
      "fbs s3 a = Some (f\<lparr>colortex := Slots None None None c3\<rparr>)"
      "fbs s3 = (fbs s)(a \<mapsto> f\<lparr>colortex := Slots None None None c3\<rparr>)" "rbs s3 = rbs s2"
      "\<forall>t. tex_free s2 t \<longrightarrow> tex_free s3 t" "\<forall>t. c2 = Some t \<longrightarrow> tex_free s3 t"
      "currentfb s3 = (if c2 = None then currentfb s2 else object f)"
    by (auto simp add: slot_put_def 2(4))
  from step_colortex [OF 3(2,3), of 3] obtain s4 where
    4: "free_colortex_body (Some a) s3 3 = Inr s4" "attachments_agree s4 a"
      "fbs s4 = (fbs s)(a \<mapsto> f\<lparr>colortex := Slots None None None None\<rparr>)" "rbs s4 = rbs s3"
      "\<forall>t. tex_free s3 t \<longrightarrow> tex_free s4 t" "\<forall>t. c3 = Some t \<longrightarrow> tex_free s4 t"
      "currentfb s4 = (if c3 = None then currentfb s3 else object f)"
    by (auto simp add: slot_put_def 3(4))
  have loop: "for_loop (free_colortex_body (Some a)) [0, 1, 2, 3] s = Inr s4"
    by (simp add: 1(1) 2(1) 3(1) 4(1))
  have mono: "\<forall>t. tex_free s t \<longrightarrow> tex_free s4 t"
    using 1(6) 2(6) 3(6) 4(5) by blast
  have det: "\<forall>t. Some t \<in> {c0, c1, c2, c3} \<longrightarrow> tex_free s4 t"
    using 1(7) 2(6,7) 3(6,7) 4(5,6) by blast
  have cur: "currentfb s4 = (if c0 = None \<and> c1 = None \<and> c2 = None \<and> c3 = None then currentfb s
                       else object f)"
    using 1(8) 2(8) 3(8) 4(7) by simp
  show ?thesis
    using loop 4(2,3) 1(5) 2(5) 3(5) 4(4) mono det cur by simp
qed

lemma loop_colorrb:
  assumes "attachments_agree s a" and "fbs s a = Some f" and ct: "colorrb f = Slots c0 c1 c2 c3"
  shows "\<exists>s'. for_loop (free_colorrb_body (Some a)) [0, 1, 2, 3] s = Inr s'
     \<and> attachments_agree s' a
     \<and> fbs s' = (fbs s)(a \<mapsto> f\<lparr>colorrb := Slots None None None None\<rparr>) \<and> texs s' = texs s
     \<and> (\<forall>t. rb_free s t \<longrightarrow> rb_free s' t)
     \<and> (\<forall>t. Some t \<in> {c0, c1, c2, c3} \<longrightarrow> rb_free s' t)
     \<and> currentfb s' = (if c0 = None \<and> c1 = None \<and> c2 = None \<and> c3 = None then currentfb s
                       else object f)"
proof -
  from step_colorrb [OF assms(1,2), of 0] obtain s1 where
    1: "free_colorrb_body (Some a) s 0 = Inr s1" "attachments_agree s1 a"
      "fbs s1 a = Some (f\<lparr>colorrb := Slots None c1 c2 c3\<rparr>)"
      "fbs s1 = (fbs s)(a \<mapsto> f\<lparr>colorrb := Slots None c1 c2 c3\<rparr>)" "texs s1 = texs s"
      "\<forall>t. rb_free s t \<longrightarrow> rb_free s1 t" "\<forall>t. c0 = Some t \<longrightarrow> rb_free s1 t"
      "currentfb s1 = (if c0 = None then currentfb s else object f)"
    by (auto simp add: ct slot_put_def)
  from step_colorrb [OF 1(2,3), of 1] obtain s2 where
    2: "free_colorrb_body (Some a) s1 1 = Inr s2" "attachments_agree s2 a"
      "fbs s2 a = Some (f\<lparr>colorrb := Slots None None c2 c3\<rparr>)"
      "fbs s2 = (fbs s)(a \<mapsto> f\<lparr>colorrb := Slots None None c2 c3\<rparr>)" "texs s2 = texs s1"
      "\<forall>t. rb_free s1 t \<longrightarrow> rb_free s2 t" "\<forall>t. c1 = Some t \<longrightarrow> rb_free s2 t"
      "currentfb s2 = (if c1 = None then currentfb s1 else object f)"
    by (auto simp add: slot_put_def 1(4))
  from step_colorrb [OF 2(2,3), of 2] obtain s3 where
    3: "free_colorrb_body (Some a) s2 2 = Inr s3" "attachments_agree s3 a"
      "fbs s3 a = Some (f\<lparr>colorrb := Slots None None None c3\<rparr>)"
      "fbs s3 = (fbs s)(a \<mapsto> f\<lparr>colorrb := Slots None None None c3\<rparr>)" "texs s3 = texs s2"
      "\<forall>t. rb_free s2 t \<longrightarrow> rb_free s3 t" "\<forall>t. c2 = Some t \<longrightarrow> rb_free s3 t"
      "currentfb s3 = (if c2 = None then currentfb s2 else object f)"
    by (auto simp add: slot_put_def 2(4))
  from step_colorrb [OF 3(2,3), of 3] obtain s4 where
    4: "free_colorrb_body (Some a) s3 3 = Inr s4" "attachments_agree s4 a"
      "fbs s4 = (fbs s)(a \<mapsto> f\<lparr>colorrb := Slots None None None None\<rparr>)" "texs s4 = texs s3"
      "\<forall>t. rb_free s3 t \<longrightarrow> rb_free s4 t" "\<forall>t. c3 = Some t \<longrightarrow> rb_free s4 t"
      "currentfb s4 = (if c3 = None then currentfb s3 else object f)"
    by (auto simp add: slot_put_def 3(4))
  have loop: "for_loop (free_colorrb_body (Some a)) [0, 1, 2, 3] s = Inr s4"
    by (simp add: 1(1) 2(1) 3(1) 4(1))
  have mono: "\<forall>t. rb_free s t \<longrightarrow> rb_free s4 t"
    using 1(6) 2(6) 3(6) 4(5) by blast
  have det: "\<forall>t. Some t \<in> {c0, c1, c2, c3} \<longrightarrow> rb_free s4 t"
    using 1(7) 2(6,7) 3(6,7) 4(5,6) by blast
  have cur: "currentfb s4 = (if c0 = None \<and> c1 = None \<and> c2 = None \<and> c3 = None then currentfb s
                       else object f)"
    using 1(8) 2(8) 3(8) 4(7) by simp
  show ?thesis
    using loop 4(2,3) 1(5) 2(5) 3(5) 4(4) mono det cur by simp
qed

text \<open>
  C8, as the code has it. Let the forward and backward references of framebuffer \<open>a\<close>
  agree. Then \<^verbatim>\<open>GPU_framebuffer_free\<close> returns, with any number of occupied slots and with
  none; the framebuffer is released; every texture and every renderbuffer that was in one
  of its slots has an empty back-reference; and \<^verbatim>\<open>GG.currentfb\<close> is 0 afterwards when the
  framebuffer had an attachment (the detach binds it) or its handle was the bound one at
  the call, and is unchanged otherwise.
\<close>

theorem framebuffer_free:
  assumes "fbs s a = Some f" and "attachments_agree s a"
  shows "\<exists>s'. GPU_framebuffer_free s (Some a) = Inr s'
     \<and> fbs s' = (fbs s)(a := None)
     \<and> (\<forall>t. Some t \<in> set (depthtex f # slot_list (colortex f)) \<longrightarrow> tex_free s' t)
     \<and> (\<forall>r. Some r \<in> set (depthrb f # slot_list (colorrb f)) \<longrightarrow> rb_free s' r)
     \<and> currentfb s' = (if has_attachment f \<or> currentfb s = object f then 0 else currentfb s)"
proof -
  obtain c0 c1 c2 c3 r0 r1 r2 r3 where
    sl: "colortex f = Slots c0 c1 c2 c3" "colorrb f = Slots r0 r1 r2 r3"
    by (cases "colortex f"; cases "colorrb f") auto
  from step_depthtex [OF assms(2,1)] obtain s1 where
    1: "(if depthtex f \<noteq> None then GPU_framebuffer_texture_detach s (depthtex f) else Inr s)
           = Inr s1"
      "attachments_agree s1 a" "fbs s1 = (fbs s)(a \<mapsto> f\<lparr>depthtex := None\<rparr>)" "rbs s1 = rbs s"
      "\<forall>t. tex_free s t \<longrightarrow> tex_free s1 t" "\<forall>t. depthtex f = Some t \<longrightarrow> tex_free s1 t"
      "currentfb s1 = (if depthtex f = None then currentfb s else object f)"
    by blast
  let ?f1 = "f\<lparr>depthtex := None\<rparr>"
  have f1: "fbs s1 a = Some ?f1" using 1(3) by simp
  have ct1: "colortex ?f1 = Slots c0 c1 c2 c3" using sl by simp
  from loop_colortex [OF 1(2) f1 ct1] obtain s2 where
    2: "for_loop (free_colortex_body (Some a)) [0, 1, 2, 3] s1 = Inr s2"
      "attachments_agree s2 a"
      "fbs s2 = (fbs s1)(a \<mapsto> ?f1\<lparr>colortex := Slots None None None None\<rparr>)" "rbs s2 = rbs s1"
      "\<forall>t. tex_free s1 t \<longrightarrow> tex_free s2 t" "\<forall>t. Some t \<in> {c0, c1, c2, c3} \<longrightarrow> tex_free s2 t"
      "currentfb s2 = (if c0 = None \<and> c1 = None \<and> c2 = None \<and> c3 = None then currentfb s1
                       else object ?f1)"
    by blast
  let ?f2 = "?f1\<lparr>colortex := Slots None None None None\<rparr>"
  have f2: "fbs s2 a = Some ?f2" using 2(3) by simp
  from step_depthrb [OF 2(2) f2] obtain s3 where
    3: "(if depthrb ?f2 \<noteq> None then GPU_framebuffer_renderbuffer_detach s2 (depthrb ?f2)
         else Inr s2) = Inr s3"
      "attachments_agree s3 a" "fbs s3 = (fbs s2)(a \<mapsto> ?f2\<lparr>depthrb := None\<rparr>)" "texs s3 = texs s2"
      "\<forall>r. rb_free s2 r \<longrightarrow> rb_free s3 r" "\<forall>r. depthrb ?f2 = Some r \<longrightarrow> rb_free s3 r"
      "currentfb s3 = (if depthrb ?f2 = None then currentfb s2 else object ?f2)"
    by blast
  let ?f3 = "?f2\<lparr>depthrb := None\<rparr>"
  have f3: "fbs s3 a = Some ?f3" using 3(3) by simp
  have rb3: "colorrb ?f3 = Slots r0 r1 r2 r3" using sl by simp
  from loop_colorrb [OF 3(2) f3 rb3] obtain s4 where
    4: "for_loop (free_colorrb_body (Some a)) [0, 1, 2, 3] s3 = Inr s4"
      "attachments_agree s4 a"
      "fbs s4 = (fbs s3)(a \<mapsto> ?f3\<lparr>colorrb := Slots None None None None\<rparr>)" "texs s4 = texs s3"
      "\<forall>r. rb_free s3 r \<longrightarrow> rb_free s4 r" "\<forall>r. Some r \<in> {r0, r1, r2, r3} \<longrightarrow> rb_free s4 r"
      "currentfb s4 = (if r0 = None \<and> r1 = None \<and> r2 = None \<and> r3 = None then currentfb s3
                       else object ?f3)"
    by blast
  let ?f4 = "?f3\<lparr>colorrb := Slots None None None None\<rparr>"
  have f4: "fbs s4 a = Some ?f4" using 4(3) by simp
  define s5 where "s5 =
           (if object ?f4 \<noteq> 0 then
              (let s' = gl (DeleteFramebuffers (object ?f4)) s4 in
               if currentfb s' = object ?f4
               then (gl (BindFramebuffer GL_FRAMEBUFFER 0) s')\<lparr>currentfb := 0\<rparr>
               else s')
            else s4)"
  define s6 where "s6 = s5\<lparr>fbs := (fbs s5)(a := None)\<rparr>"
  have res: "GPU_framebuffer_free s (Some a) = Inr s6"
    using assms(1) 1(1) 2(1) f2 3(1) 4(1) f4
    by (simp add: GPU_framebuffer_free_def s5_def s6_def Let_def del: for_loop.simps)
  have h5: "texs s5 = texs s4" "rbs s5 = rbs s4" "fbs s5 = fbs s4"
    by (simp_all add: s5_def Let_def)
  have fb6: "fbs s6 = (fbs s)(a := None)"
    by (simp add: s6_def h5 4(3) 3(3) 2(3) 1(3))
  have tex6: "tex_free s6 t = tex_free s2 t" for t
    by (simp add: tex_free_def s6_def h5 4(4) 3(4))
  have rb6: "rb_free s6 r = rb_free s4 r" for r
    by (simp add: rb_free_def s6_def h5)
  have rb2: "rb_free s2 r = rb_free s r" for r
    by (simp add: rb_free_def 2(4) 1(4))
  have t: "\<forall>t. Some t \<in> set (depthtex f # slot_list (colortex f)) \<longrightarrow> tex_free s6 t"
    using 1(6) 2(5,6) by (auto simp add: tex6 sl)
  have r: "\<forall>r. Some r \<in> set (depthrb f # slot_list (colorrb f)) \<longrightarrow> rb_free s6 r"
    using 3(6) 4(5,6) by (auto simp add: rb6 sl)
  have c4: "currentfb s4 = (if has_attachment f then object f else currentfb s)"
    using 1(7) 2(7) 3(7) 4(7) by (auto simp add: has_attachment_def sl)
  have c6: "currentfb s6 = (if has_attachment f \<or> currentfb s = object f then 0 else currentfb s)"
    by (auto simp add: s6_def s5_def Let_def c4)
  from res fb6 t r c6 show ?thesis by blast
qed

theorem framebuffer_free_witness:
  "(\<exists>s'. GPU_framebuffer_free scene_attached_bound (Some 1) = Inr s'
      \<and> fbs s' = (fbs scene_attached_bound)(1 := None)
      \<and> tex_free s' 10 \<and> currentfb s' = 0) \<and>
   (\<exists>s'. GPU_framebuffer_free scene_attached_bound (Some 2) = Inr s' \<and> currentfb s' = 0) \<and>
   (\<exists>s'. GPU_framebuffer_free (scene\<lparr>currentfb := 12\<rparr>) (Some 1) = Inr s' \<and> currentfb s' = 12)"
proof -
  have a1: "attachments_agree scene_attached_bound 1"
    by (simp add: attachments_agree_def depthtex_ok_def tex_slot_ok_def depthrb_ok_def
        rb_slot_ok_def scene_attached_bound_def scene_attached_def scene_def
        calloc_GPUFrameBuffer_def color_texture_def)
  have a2: "attachments_agree scene_attached_bound 2"
    by (simp add: attachments_agree_def depthtex_ok_def tex_slot_ok_def depthrb_ok_def
        rb_slot_ok_def scene_attached_bound_def scene_attached_def scene_def
        calloc_GPUFrameBuffer_def)
  have a3: "attachments_agree (scene\<lparr>currentfb := 12\<rparr>) 1"
    by (simp add: attachments_agree_def depthtex_ok_def tex_slot_ok_def depthrb_ok_def
        rb_slot_ok_def scene_def calloc_GPUFrameBuffer_def)
  have f1: "fbs scene_attached_bound 1 =
      Some (calloc_GPUFrameBuffer\<lparr>object := 11, colortex := Slots (Some 10) None None None\<rparr>)"
    by (simp add: scene_attached_bound_def scene_attached_def)
  have f2: "fbs scene_attached_bound 2 = Some (calloc_GPUFrameBuffer\<lparr>object := 12\<rparr>)"
    by (simp add: scene_attached_bound_def scene_attached_def scene_def)
  have f3: "fbs (scene\<lparr>currentfb := 12\<rparr>) 1 = Some (calloc_GPUFrameBuffer\<lparr>object := 11\<rparr>)"
    by (simp add: scene_def)
  have c: "currentfb scene_attached_bound = 12"
    by (simp add: scene_attached_bound_def)
  from framebuffer_free [OF f1 a1]
  have w1: "\<exists>s'. GPU_framebuffer_free scene_attached_bound (Some 1) = Inr s'
      \<and> fbs s' = (fbs scene_attached_bound)(1 := None)
      \<and> tex_free s' 10 \<and> currentfb s' = 0"
    by (simp add: has_attachment_def calloc_GPUFrameBuffer_def)
  from framebuffer_free [OF f2 a2]
  have w2: "\<exists>s'. GPU_framebuffer_free scene_attached_bound (Some 2) = Inr s' \<and> currentfb s' = 0"
    by (auto simp add: has_attachment_def calloc_GPUFrameBuffer_def c)
  from framebuffer_free [OF f3 a3]
  have w3: "\<exists>s'. GPU_framebuffer_free (scene\<lparr>currentfb := 12\<rparr>) (Some 1) = Inr s'
      \<and> currentfb s' = 12"
    by (auto simp add: has_attachment_def calloc_GPUFrameBuffer_def)
  from w1 w2 w3 show ?thesis by blast
qed

text \<open>
  C8 as stated fails in its last part: framebuffer 1 (handle 11) holds texture 10 and
  is not the bound one (\<^verbatim>\<open>GG.currentfb\<close> is 12); freeing it leaves \<^verbatim>\<open>GG.currentfb\<close> 0 all
  the same, and the back-reference of texture 10 empty.
\<close>

theorem framebuffer_free_counterexample:
  "currentfb scene_attached_bound = 12 \<and>
   map_option object (fbs scene_attached_bound 1) = Some 11 \<and>
   (case GPU_framebuffer_free scene_attached_bound (Some 1) of
      Inl e \<Rightarrow> False
    | Inr s' \<Rightarrow> currentfb s' = 0 \<and> map_option tex_fb (texs s' 10) = Some None)"
  by (simp add: GPU_framebuffer_free_def free_colortex_body_def free_colorrb_body_def
      GPU_framebuffer_texture_detach_def GPU_framebuffer_texture_detach_target_def
      tex_acc_defs Let_def scene_attached_bound_def scene_attached_def scene_def
      calloc_GPUFrameBuffer_def color_texture_def)

section \<open>The scenes are states the operations produce\<close>

text \<open>Up to the log of device calls and \<^verbatim>\<open>GG.currentfb\<close>, the scenes with attachments are
  what the attach operations make of the plain scene.\<close>

lemma scene_attached_reached:
  "(case GPU_framebuffer_texture_attach scene (Some 1) (Some 10) 0 0 of
      Inl e \<Rightarrow> False
    | Inr (ok, s') \<Rightarrow> ok \<and> fbs s' = fbs scene_attached \<and> texs s' = texs scene_attached
                       \<and> rbs s' = rbs scene_attached)"
  by (simp add: GPU_framebuffer_texture_attach_def GPU_framebuffer_texture_attach_target_def
      tex_acc_defs Let_def GPU_FB_MAX_SLOTS_def scene_attached_def scene_def
      calloc_GPUFrameBuffer_def color_texture_def)

lemma scene_two_colors_reached:
  "(case GPU_framebuffer_texture_attach scene_attached (Some 1) (Some 11) 1 0 of
      Inl e \<Rightarrow> False
    | Inr (ok, s') \<Rightarrow> ok \<and> fbs s' = fbs scene_two_colors \<and> texs s' = texs scene_two_colors
                       \<and> rbs s' = rbs scene_two_colors)"
  by (simp add: GPU_framebuffer_texture_attach_def GPU_framebuffer_texture_attach_target_def
      tex_acc_defs Let_def GPU_FB_MAX_SLOTS_def scene_attached_def scene_two_colors_def scene_def
      calloc_GPUFrameBuffer_def color_texture_def fun_upd_twist)

lemma scene_renderbuffers_reached:
  "(case GPU_framebuffer_renderbuffer_attach GL_NO_ERROR scene (Some 1) (Some 20) 0 of
      Inl e \<Rightarrow> False
    | Inr (ok, s1) \<Rightarrow>
       (case GPU_framebuffer_renderbuffer_attach GL_NO_ERROR s1 (Some 1) (Some 21) 0 of
          Inl e \<Rightarrow> False
        | Inr (ok', s') \<Rightarrow> ok = 1 \<and> ok' = 1 \<and> fbs s' = fbs scene_renderbuffers
             \<and> texs s' = texs scene_renderbuffers \<and> rbs s' = rbs scene_renderbuffers))"
  by (simp add: GPU_framebuffer_renderbuffer_attach_def rb_acc_defs Let_def GPU_FB_MAX_SLOTS_def
      scene_renderbuffers_def scene_def calloc_GPUFrameBuffer_def calloc_GPURenderBuffer_def
      GL_NO_ERROR_def GL_INVALID_OPERATION_def fun_upd_twist)

end
